theory Spec2Isabelle
  imports Main "HOL-Library.Sublist"
begin

section \<open>The startup orchestrator of \<open>src/app.ts\<close>\<close>

text \<open>
  The program is one JavaScript module: a synchronous audit check, an asynchronous
  bootstrap \<open>app()\<close>, two process-wide fault handlers and a signal-driven \<open>shutdown\<close>.
  It is embedded as follows.
  \<^item> Everything the program asks of its platform (the environment variables, the result
    of \<open>spawnSync\<close>, \<open>JSON.parse\<close>, the conversion of strings to numbers, the
    arithmetic of its numbers, the stack text attached to a new \<open>Error\<close>) is a field of the record \<open>host\<close>.
  \<^item> Everything the program does to the outside (spawning, importing, calling into the
    loaded modules, arming the timer, console output, \<open>process.exit\<close>) is appended to a
    chronological list of \<open>effect\<close>s.
  \<^item> The two module-level variables, the place where \<open>app()\<close> is suspended and whether
    \<open>shutdown\<close> is suspended at its \<open>await\<close> make up the \<open>state\<close>; each macrotask of the
    event loop (a signal, a fault, the settlement of an awaited promise, the timer) is an
    \<open>event\<close>, handled to completion by \<open>step\<close>.
  \<^item> A thrown exception or a rejected promise is a value of type \<open>thrown\<close>.
  \<^item> The process ends by a call of \<open>process.exit\<close>, or with status 0 when its event
    loop has run empty (the event \<open>Drained\<close>); the field \<open>exited\<close> holds the status.
\<close>

subsection \<open>JavaScript values\<close>

text \<open>
  A thrown value, as far as the program looks at it: its \<open>message\<close> property (when it has
  one), its \<open>stack\<close> property (when it has one) and what \<open>String(err)\<close> gives.
\<close>

record thrown =
  err_message :: "string option"
  err_stack :: "string option"
  err_string :: string

text \<open>
  The result of \<open>JSON.parse\<close>. The numbers are the platform's (IEEE doubles): their type
  is the parameter \<open>'n\<close>, and everything the program does with a number is an operation
  of the host. An object is the list of its own properties, each name once, in
  enumeration order.
\<close>

datatype 'n json =
    JNull
  | JBool bool
  | JNum 'n
  | JStr string
  | JArr "'n json list"
  | JObj "(string \<times> 'n json) list"

text \<open>A primitive number or string: what the \<open>reduce\<close> accumulates.\<close>

datatype 'n prim = PNum 'n | PStr string

text \<open>
  The result of converting an environment variable to a number, as line 96 uses it:
  not a number, or the delay.
\<close>

datatype jsnum = NaN | Num int

text \<open>
  What \<open>spawnSync\<close> returns, as far as the program reads it; a tool that could not be
  run is reported in \<open>res.error\<close>.
\<close>

record spawn_result =
  error :: "string option"   \<comment> \<open>\<open>res.error.message\<close> when \<open>res.error\<close> is set\<close>
  stdout :: "string option"  \<comment> \<open>\<open>res.stdout\<close>; \<open>None\<close> is \<open>null\<close>\<close>

record 'n host =
  env :: "string \<rightharpoonup> string"                  \<comment> \<open>\<open>process.env\<close>\<close>
  spawnSync :: spawn_result                  \<comment> \<open>what \<open>spawnSync('npm', ...)\<close> returns\<close>
  JSON_parse :: "string \<Rightarrow> thrown + 'n json"   \<comment> \<open>\<open>Inl\<close> is the SyntaxError thrown\<close>
  StringToNumber :: "string \<Rightarrow> jsnum"         \<comment> \<open>\<open>Number(s)\<close> for the delay of line 96\<close>
  Error_stack :: "string \<Rightarrow> string \<Rightarrow> string"  \<comment> \<open>the \<open>stack\<close> of a new error, by name and message\<close>
  num_zero :: 'n                             \<comment> \<open>the number \<open>0\<close>\<close>
  num_one :: 'n                              \<comment> \<open>the number \<open>1\<close>, which \<open>true\<close> converts to\<close>
  num_add :: "'n \<Rightarrow> 'n \<Rightarrow> 'n"                \<comment> \<open>\<open>a + b\<close> on numbers\<close>
  num_less :: "'n \<Rightarrow> 'n \<Rightarrow> bool"             \<comment> \<open>\<open>a < b\<close> on numbers\<close>
  num_truthy :: "'n \<Rightarrow> bool"                 \<comment> \<open>neither \<open>0\<close> nor \<open>NaN\<close>\<close>
  num_ToString :: "'n \<Rightarrow> string"             \<comment> \<open>\<open>String(a)\<close> for a number\<close>
  num_of_string :: "string \<Rightarrow> 'n"            \<comment> \<open>the number a string converts to\<close>

text \<open>
  The effects. A spawn is given by its command and arguments, an import by its path
  relative to the directory of the module.
\<close>

datatype effect =
    Spawn string "string list"
  | Import string
  | CallValidate
  | CallStart
  | SetTimeout int
  | CallStop
  | ConsoleLog "string list"
  | ConsoleError "string list"
  | Exit int

definition mk_error :: "'n host \<Rightarrow> string \<Rightarrow> string \<Rightarrow> thrown" where
  "mk_error h name msg =
     \<lparr>err_message = Some msg,
      err_stack = Some (Error_stack h name msg),
      err_string = (if msg = [] then name else name @ '': '' @ msg)\<rparr>"

definition new_Error :: "'n host \<Rightarrow> string \<Rightarrow> thrown" where
  "new_Error h msg = mk_error h ''Error'' msg"

text \<open>\<open>err && err.message ? err.message : String(err)\<close>\<close>

definition err_text :: "thrown \<Rightarrow> string" where
  "err_text e = (case err_message e of
                   Some m \<Rightarrow> if m \<noteq> [] then m else err_string e
                 | None \<Rightarrow> err_string e)"

fun join :: "string \<Rightarrow> string list \<Rightarrow> string" where
  "join sep [] = []"
| "join sep [x] = x"
| "join sep (x # y # ys) = x @ sep @ join sep (y # ys)"

text \<open>The results of a list of conversions, or the first exception among them.\<close>

fun sequence :: "(thrown + 'a) list \<Rightarrow> thrown + 'a list" where
  "sequence [] = Inr []"
| "sequence (Inl e # rs) = Inl e"
| "sequence (Inr x # rs) = (case sequence rs of Inl e \<Rightarrow> Inl e | Inr xs \<Rightarrow> Inr (x # xs))"

text \<open>
  The conversion of a parsed value to a string, as \<open>+\<close> and \<open>Array.prototype.join\<close>
  apply it. An array is its elements joined by commas, with \<open>null\<close> elements empty. An
  object has no callable \<open>valueOf\<close> or \<open>toString\<close> of its own (a parsed value is never a
  function): with an own property \<open>toString\<close> the conversion finds nothing to call and
  throws a TypeError, without one it is \<open>Object.prototype.toString\<close> that gives
  \<open>[object Object]\<close>.
\<close>

fun ToString :: "'n host \<Rightarrow> 'n json \<Rightarrow> thrown + string" where
  "ToString h JNull = Inr ''null''"
| "ToString h (JBool b) = Inr (if b then ''true'' else ''false'')"
| "ToString h (JNum n) = Inr (num_ToString h n)"
| "ToString h (JStr s) = Inr s"
| "ToString h (JArr xs) =
     (case sequence (map (\<lambda>x. if x = JNull then Inr [] else ToString h x) xs) of
        Inl e \<Rightarrow> Inl e
      | Inr strs \<Rightarrow> Inr (join '','' strs))"
| "ToString h (JObj kvs) =
     (if map_of kvs ''toString'' \<noteq> None
      then Inl (mk_error h ''TypeError'' ''Cannot convert object to primitive value'')
      else Inr ''[object Object]'')"

fun truthy :: "'n host \<Rightarrow> 'n json \<Rightarrow> bool" where
  "truthy h JNull = False"
| "truthy h (JBool b) = b"
| "truthy h (JNum n) = num_truthy h n"
| "truthy h (JStr s) = (s \<noteq> [])"
| "truthy h (JArr xs) = True"
| "truthy h (JObj kvs) = True"

fun truthy_prim :: "'n host \<Rightarrow> 'n prim \<Rightarrow> bool" where
  "truthy_prim h (PNum n) = num_truthy h n"
| "truthy_prim h (PStr s) = (s \<noteq> [])"

text \<open>
  Reading the property \<open>k\<close> of a parsed value, for the two names the program reads
  (\<open>metadata\<close>, \<open>vulnerabilities\<close>; neither is a built-in property of a string, an array,
  a number or a boolean). \<open>Inr None\<close> is \<open>undefined\<close>; reading a property of \<open>null\<close>
  throws a TypeError.
\<close>

fun get_prop :: "'n host \<Rightarrow> 'n json \<Rightarrow> string \<Rightarrow> thrown + 'n json option" where
  "get_prop h JNull k =
     Inl (mk_error h ''TypeError'' (''Cannot read properties of null (reading '' @ [CHR 0x27] @ k @ [CHR 0x27] @ '')''))"
| "get_prop h (JObj kvs) k = Inr (map_of kvs k)"
| "get_prop h v k = Inr None"

text \<open>
  \<open>Object.values\<close>, which line 41 applies to truthy values only (so never to \<open>null\<close>):
  the property values of an object, the elements of an array, the characters of a
  string, nothing for a number or a boolean.
\<close>

fun Object_values :: "'n json \<Rightarrow> 'n json list" where
  "Object_values (JObj kvs) = map snd kvs"
| "Object_values (JArr xs) = xs"
| "Object_values (JStr s) = map (\<lambda>c. JStr [c]) s"
| "Object_values v = []"

text \<open>
  \<open>a + b\<close> for an accumulator \<open>a\<close> and a parsed value \<open>b\<close>. To a number, \<open>null\<close> and
  \<open>false\<close> add \<open>0\<close>, \<open>true\<close> adds \<open>1\<close>, a number adds itself; a string, an array or an
  object is converted to a string, which may throw, and the two are concatenated.
\<close>

fun js_plus :: "'n host \<Rightarrow> 'n prim \<Rightarrow> 'n json \<Rightarrow> thrown + 'n prim" where
  "js_plus h (PNum a) JNull = Inr (PNum (num_add h a (num_zero h)))"
| "js_plus h (PNum a) (JBool b) = Inr (PNum (num_add h a (if b then num_one h else num_zero h)))"
| "js_plus h (PNum a) (JNum n) = Inr (PNum (num_add h a n))"
| "js_plus h (PNum a) v =
     (case ToString h v of Inl e \<Rightarrow> Inl e | Inr s \<Rightarrow> Inr (PStr (num_ToString h a @ s)))"
| "js_plus h (PStr s) v =
     (case ToString h v of Inl e \<Rightarrow> Inl e | Inr s' \<Rightarrow> Inr (PStr (s @ s')))"

text \<open>\<open>values.reduce((a, b) => a + b, a0)\<close>: from left to right, up to the first exception.\<close>

fun reduce_plus :: "'n host \<Rightarrow> 'n prim \<Rightarrow> 'n json list \<Rightarrow> thrown + 'n prim" where
  "reduce_plus h a [] = Inr a"
| "reduce_plus h a (b # bs) =
     (case js_plus h a b of Inl e \<Rightarrow> Inl e | Inr a' \<Rightarrow> reduce_plus h a' bs)"

fun prim_string :: "'n host \<Rightarrow> 'n prim \<Rightarrow> string" where
  "prim_string h (PNum n) = num_ToString h n"
| "prim_string h (PStr s) = s"

text \<open>\<open>totalVulns > 0\<close>: a string is converted to a number first.\<close>

fun gt_zero :: "'n host \<Rightarrow> 'n prim \<Rightarrow> bool" where
  "gt_zero h (PNum n) = num_less h (num_zero h) n"
| "gt_zero h (PStr s) = num_less h (num_zero h) (num_of_string h s)"

subsection \<open>\<open>runOptionalAuditCheck\<close>\<close>

record StartupResult =
  ok :: bool
  message :: string
  details :: "string option"

text \<open>
  Line 41: \<open>(audit.metadata && (audit.metadata.vulnerabilities &&
  Object.values(audit.metadata.vulnerabilities).reduce((a, b) => a + b, 0))) || 0\<close>.
  A falsy operand of \<open>&&\<close> is the value of the conjunction, which \<open>|| 0\<close> then replaces
  by \<open>0\<close>.
\<close>

definition totalVulns :: "'n host \<Rightarrow> 'n json \<Rightarrow> thrown + 'n prim" where
  "totalVulns h audit =
     (case get_prop h audit ''metadata'' of
        Inl e \<Rightarrow> Inl e
      | Inr None \<Rightarrow> Inr (PNum (num_zero h))
      | Inr (Some m) \<Rightarrow>
          if \<not> truthy h m then Inr (PNum (num_zero h))
          else (case get_prop h m ''vulnerabilities'' of
                  Inl e \<Rightarrow> Inl e
                | Inr None \<Rightarrow> Inr (PNum (num_zero h))
                | Inr (Some v) \<Rightarrow>
                    if \<not> truthy h v then Inr (PNum (num_zero h))
                    else (case reduce_plus h (PNum (num_zero h)) (Object_values v) of
                            Inl e \<Rightarrow> Inl e
                          | Inr r \<Rightarrow> Inr (if truthy_prim h r then r else PNum (num_zero h)))))"

text \<open>The \<open>try\<close> block from the \<open>spawnSync\<close> call on: \<open>Inl\<close> is an exception it throws.\<close>

definition audit_try :: "'n host \<Rightarrow> thrown + StartupResult" where
  "audit_try h =
     (let res = spawnSync h in
      case error res of
        Some m \<Rightarrow> Inr \<lparr>ok = False, message = ''Failed to execute npm audit'', details = Some m\<rparr>
      | None \<Rightarrow>
         (case stdout res of
            None \<Rightarrow> Inr \<lparr>ok = True, message = ''no audit output'', details = None\<rparr>
          | Some out \<Rightarrow>
              if out = [] then Inr \<lparr>ok = True, message = ''no audit output'', details = None\<rparr>
              else (case JSON_parse h out of
                      Inl e \<Rightarrow> Inl e
                    | Inr audit \<Rightarrow>
                       (case totalVulns h audit of
                          Inl e \<Rightarrow> Inl e
                        | Inr t \<Rightarrow>
                            if gt_zero h t
                            then Inr \<lparr>ok = False,
                                      message = ''npm audit found '' @ prim_string h t @ '' vulnerabilities'',
                                      details = None\<rparr>
                            else Inr \<lparr>ok = True, message = ''npm audit passed'', details = None\<rparr>))))"

text \<open>
  The whole function: the effects it has (the spawn, or none) and the value it returns.
  The \<open>catch\<close> turns every exception of the \<open>try\<close> block into a returned value.
\<close>

definition runOptionalAuditCheck :: "'n host \<Rightarrow> effect list \<times> StartupResult" where
  "runOptionalAuditCheck h =
     (if env h ''ENFORCE_AUDIT'' \<noteq> Some ''true''
      then ([], \<lparr>ok = True, message = ''audit skipped'', details = None\<rparr>)
      else ([Spawn ''npm'' [''audit'', ''--json'', ''--production'']],
            case audit_try h of
              Inr r \<Rightarrow> r
            | Inl e \<Rightarrow> \<lparr>ok = False, message = ''audit check failed'',
                        details = Some (err_string e)\<rparr>))"

subsection \<open>The loaded modules and the deadline race\<close>

text \<open>
  What calling an export does at the call itself: it is not a function (a TypeError), it
  throws, or it returns a value or promise that the caller awaits. The settlement of an
  awaited promise arrives later, as an event.
\<close>

datatype callee = NotCallable | Throws thrown | Returns

record validator_module =
  default_export :: "callee option"               \<comment> \<open>\<open>None\<close>: absent or falsy\<close>
  validateDependencies_export :: "callee option"

record server_module =
  start :: callee
  stop :: callee

text \<open>
  Line 86: \<open>validateModule.default || validateModule.validateDependencies || validateModule\<close>;
  the module namespace object itself is not callable.
\<close>

definition validateDependencies :: "validator_module \<Rightarrow> callee" where
  "validateDependencies m =
     (case default_export m of
        Some c \<Rightarrow> c
      | None \<Rightarrow> (case validateDependencies_export m of Some c \<Rightarrow> c | None \<Rightarrow> NotCallable))"

datatype promise = Pending | Fulfilled | Rejected thrown

text \<open>
  The two things that can settle the race: the promise of \<open>start()\<close> settles, or the
  callback of \<open>setTimeout\<close> runs. When the platform runs the callback (\<open>timeoutMs\<close>
  after the call, for a delay it accepts) is not part of the model; which of the two
  comes first is.
\<close>

datatype race_event = StartSettled "thrown + unit" | TimerFired

text \<open>
  The call of \<open>startServerWithTimeout\<close>: its effects and the promise it returns. An
  exception inside an \<open>async\<close> function rejects the promise returned; the timer is armed
  only when \<open>start()\<close> has returned.
\<close>

definition startServerWithTimeout :: "'n host \<Rightarrow> server_module \<Rightarrow> int option \<Rightarrow> effect list \<times> promise" where
  "startServerWithTimeout h serverModule timeoutMs =
     (let t = (case timeoutMs of None \<Rightarrow> 30000 | Some t \<Rightarrow> t) in
      case start serverModule of
        NotCallable \<Rightarrow> ([], Rejected (mk_error h ''TypeError'' ''serverModule.start is not a function''))
      | Throws e \<Rightarrow> ([CallStart], Rejected e)
      | Returns \<Rightarrow> ([CallStart, SetTimeout t], Pending))"

text \<open>
  \<open>Promise.race\<close>: the first settlement decides; a settled promise does not change, so
  whatever the loser does later is ignored.
\<close>

fun race_settle :: "'n host \<Rightarrow> race_event \<Rightarrow> promise \<Rightarrow> promise" where
  "race_settle h (StartSettled (Inr u)) Pending = Fulfilled"
| "race_settle h (StartSettled (Inl e)) Pending = Rejected e"
| "race_settle h TimerFired Pending = Rejected (new_Error h ''Server start timed out'')"
| "race_settle h ev p = p"

text \<open>\<open>Number(v)\<close> for an environment variable \<open>v\<close>: \<open>undefined\<close> converts to \<open>NaN\<close>.\<close>

definition Number :: "'n host \<Rightarrow> string option \<Rightarrow> jsnum" where
  "Number h v = (case v of None \<Rightarrow> NaN | Some s \<Rightarrow> StringToNumber h s)"

text \<open>Line 96: \<open>Number(process.env.STARTUP_TIMEOUT_MS) || 30000\<close>\<close>

definition startup_timeout :: "'n host \<Rightarrow> int" where
  "startup_timeout h =
     (case Number h (env h ''STARTUP_TIMEOUT_MS'') of
        NaN \<Rightarrow> 30000
      | Num n \<Rightarrow> if n = 0 then 30000 else n)"

subsection \<open>The process: state, events, handlers\<close>

datatype signal = SIGINT | SIGTERM

fun signal_name :: "signal \<Rightarrow> string" where
  "signal_name SIGINT = ''SIGINT''"
| "signal_name SIGTERM = ''SIGTERM''"

text \<open>Where \<open>app()\<close> stands: before its call, at one of its four \<open>await\<close>s, or finished.\<close>

datatype app_pc =
    Entry
  | LoadingValidator
  | Validating
  | LoadingServer
  | Starting server_module
  | Started
  | Failed

record state =
  serverInstance :: "server_module option"
  shuttingDown :: bool
  pc :: app_pc
  stopping :: bool            \<comment> \<open>\<open>shutdown\<close> is suspended at \<open>await serverInstance.stop()\<close>\<close>
  exited :: "int option"      \<comment> \<open>the exit status, once the process has ended\<close>
  effects :: "effect list"

datatype event =
    Signal signal
  | UnhandledRejection thrown
  | UncaughtException thrown
  | ValidatorImported "thrown + validator_module"
  | ValidatorSettled "thrown + unit"
  | ServerImported "thrown + server_module"
  | RaceEvent race_event
  | StopSettled "thrown + unit"
  | Drained

text \<open>
  \<open>Drained\<close>: the platform finds nothing left that keeps the event loop alive, and the
  process ends with status 0 (the handlers registered with \<open>process.on\<close> do not keep it
  alive). That cannot happen while an import is in flight or the race is pending (the
  timer is armed): there the event changes nothing. Elsewhere it is up to what the
  program awaits and to the handles the loaded modules hold, which the model leaves to
  the platform.
\<close>

fun keeps_loop_alive :: "app_pc \<Rightarrow> bool" where
  "keeps_loop_alive LoadingValidator = True"
| "keeps_loop_alive LoadingServer = True"
| "keeps_loop_alive (Starting server) = True"
| "keeps_loop_alive p = False"

definition init :: state where
  "init = \<lparr>serverInstance = None, shuttingDown = False, pc = Entry, stopping = False,
           exited = None, effects = []\<rparr>"

definition emit :: "effect list \<Rightarrow> state \<Rightarrow> state" where
  "emit es st = st\<lparr>effects := effects st @ es\<rparr>"

definition process_exit :: "int \<Rightarrow> state \<Rightarrow> state" where
  "process_exit c st = (emit [Exit c] st)\<lparr>exited := Some c\<rparr>"

definition niceErrorLog :: "'n host \<Rightarrow> thrown \<Rightarrow> effect list" where
  "niceErrorLog h err =
     [ConsoleError [''[STARTUP ERROR]'', err_text err],
      if env h ''DEBUG'' = Some ''true''
      then ConsoleError [case err_stack err of Some s \<Rightarrow> s | None \<Rightarrow> []]
      else ConsoleError [''Set DEBUG=true to see stack trace.'']]"

text \<open>
  The body of \<open>app()\<close>, cut at its \<open>await\<close>s. Each piece runs from one suspension to the
  next and returns the state there, with \<open>Some err\<close> when the body throws instead (so
  that the promise of \<open>app()\<close> rejects with \<open>err\<close>).
\<close>

definition app_begin :: "'n host \<Rightarrow> state \<Rightarrow> state \<times> thrown option" where
  "app_begin h st =
     (let (fx, auditResult) = runOptionalAuditCheck h; st1 = emit fx st in
      if \<not> ok auditResult
      then (st1, Some (new_Error h (''Startup blocked: '' @ message auditResult)))
      else ((emit [Import ''lib/startup/validateDependenciesBasic.js''] st1)\<lparr>pc := LoadingValidator\<rparr>,
            None))"

definition after_validator_import :: "'n host \<Rightarrow> thrown + validator_module \<Rightarrow> state \<Rightarrow> state \<times> thrown option" where
  "after_validator_import h r st =
     (case r of
        Inl err \<Rightarrow> (st, Some (new_Error h ''Failed to load dependency validator''))
      | Inr validateModule \<Rightarrow>
         (case validateDependencies validateModule of
            NotCallable \<Rightarrow> (st, Some (mk_error h ''TypeError'' ''validateDependencies is not a function''))
          | Throws e \<Rightarrow> (emit [CallValidate] st, Some e)
          | Returns \<Rightarrow> ((emit [CallValidate] st)\<lparr>pc := Validating\<rparr>, None)))"

definition after_validator :: "thrown + unit \<Rightarrow> state \<Rightarrow> state \<times> thrown option" where
  "after_validator r st =
     (case r of
        Inl e \<Rightarrow> (st, Some e)
      | Inr u \<Rightarrow> ((emit [Import ''./server.js''] st)\<lparr>pc := LoadingServer\<rparr>, None))"

definition app_finish :: "server_module \<Rightarrow> state \<Rightarrow> state" where
  "app_finish server st =
     emit [ConsoleLog [''[SERVER] started'']] (st\<lparr>serverInstance := Some server, pc := Started\<rparr>)"

definition after_server_import :: "'n host \<Rightarrow> thrown + server_module \<Rightarrow> state \<Rightarrow> state \<times> thrown option" where
  "after_server_import h r st =
     (case r of
        Inl err \<Rightarrow> (st, Some (new_Error h ''Failed to load server module''))
      | Inr server \<Rightarrow>
         (let (fx, p) = startServerWithTimeout h server (Some (startup_timeout h));
              st1 = emit fx st in
          case p of
            Pending \<Rightarrow> (st1\<lparr>pc := Starting server\<rparr>, None)
          | Rejected e \<Rightarrow> (st1, Some e)
          | Fulfilled \<Rightarrow> (app_finish server st1, None)))"

definition after_race :: "'n host \<Rightarrow> race_event \<Rightarrow> server_module \<Rightarrow> state \<Rightarrow> state \<times> thrown option" where
  "after_race h ev server st =
     (case race_settle h ev Pending of
        Pending \<Rightarrow> (st, None)
      | Rejected e \<Rightarrow> (st, Some e)
      | Fulfilled \<Rightarrow> (app_finish server st, None))"

text \<open>
  Lines 140 to 145: the handler given to \<open>catch\<close>, and the \<open>catch\<close> on the promise of
  \<open>app()\<close>, which runs it when the body has thrown.
\<close>

definition startup_failed :: "'n host \<Rightarrow> thrown \<Rightarrow> state \<Rightarrow> state" where
  "startup_failed h err st = process_exit 1 (emit (niceErrorLog h err) (st\<lparr>pc := Failed\<rparr>))"

definition app_catch :: "'n host \<Rightarrow> state \<times> thrown option \<Rightarrow> state" where
  "app_catch h r =
     (case r of
        (st, None) \<Rightarrow> st
      | (st, Some err) \<Rightarrow> startup_failed h err st)"

definition unhandledRejection :: "'n host \<Rightarrow> thrown \<Rightarrow> state \<Rightarrow> state" where
  "unhandledRejection h reason st =
     (let st1 = emit [ConsoleError [''[UNHANDLED REJECTION]'', err_string reason]] st in
      if env h ''CRASH_ON_UNHANDLED_REJECTION'' = Some ''true'' then process_exit 1 st1 else st1)"

definition uncaughtException :: "'n host \<Rightarrow> thrown \<Rightarrow> state \<Rightarrow> state" where
  "uncaughtException h err st =
     (let st1 = emit [ConsoleError [''[UNCAUGHT EXCEPTION]'', err_text err]] st in
      if env h ''CRASH_ON_UNCAUGHT_EXCEPTION'' = Some ''true'' then process_exit 1 st1 else st1)"

text \<open>
  \<open>shutdown\<close> up to its \<open>await\<close>, or to \<open>process.exit(0)\<close> when it does not reach one.
\<close>

definition shutdown :: "signal \<Rightarrow> state \<Rightarrow> state" where
  "shutdown sig st =
     (if shuttingDown st then st
      else let st1 = emit [ConsoleLog [''[SHUTDOWN] Received '' @ signal_name sig @
                                        '', shutting down gracefully...'']]
                          (st\<lparr>shuttingDown := True\<rparr>) in
           case serverInstance st1 of
             None \<Rightarrow> process_exit 0 st1
           | Some server \<Rightarrow>
              (case stop server of
                 NotCallable \<Rightarrow> process_exit 0 st1
               | Throws err \<Rightarrow>
                   process_exit 0 (emit [CallStop, ConsoleError [''[SHUTDOWN ERROR]'', err_text err]] st1)
               | Returns \<Rightarrow> (emit [CallStop] st1)\<lparr>stopping := True\<rparr>))"

text \<open>\<open>shutdown\<close> from its \<open>await\<close> on, when the promise of \<open>stop()\<close> has settled.\<close>

definition stop_settled :: "thrown + unit \<Rightarrow> state \<Rightarrow> state" where
  "stop_settled r st =
     (if \<not> stopping st then st
      else case r of
             Inr u \<Rightarrow> process_exit 0 (emit [ConsoleLog [''[SHUTDOWN] server.stop() completed'']]
                                           (st\<lparr>stopping := False\<rparr>))
           | Inl err \<Rightarrow> process_exit 0 (emit [ConsoleError [''[SHUTDOWN ERROR]'', err_text err]]
                                             (st\<lparr>stopping := False\<rparr>)))"

text \<open>
  One macrotask. Once the process has ended nothing runs; the settlement of a promise
  nobody awaits (any more) changes nothing.
\<close>

definition step :: "'n host \<Rightarrow> event \<Rightarrow> state \<Rightarrow> state" where
  "step h ev st =
     (if exited st \<noteq> None then st
      else case ev of
             Signal sig \<Rightarrow> shutdown sig st
           | UnhandledRejection reason \<Rightarrow> unhandledRejection h reason st
           | UncaughtException err \<Rightarrow> uncaughtException h err st
           | ValidatorImported r \<Rightarrow>
               if pc st = LoadingValidator then app_catch h (after_validator_import h r st) else st
           | ValidatorSettled r \<Rightarrow>
               if pc st = Validating then app_catch h (after_validator r st) else st
           | ServerImported r \<Rightarrow>
               if pc st = LoadingServer then app_catch h (after_server_import h r st) else st
           | RaceEvent re \<Rightarrow>
               (case pc st of
                  Starting server \<Rightarrow> app_catch h (after_race h re server st)
                | _ \<Rightarrow> st)
           | StopSettled r \<Rightarrow> stop_settled r st
           | Drained \<Rightarrow> if keeps_loop_alive (pc st) then st else st\<lparr>exited := Some 0\<rparr>)"

text \<open>
  The module body: the handlers are registered, then \<open>app()\<close> is called and runs to its
  first \<open>await\<close>. \<open>exec\<close> is the process after the given macrotasks.
\<close>

definition main :: "'n host \<Rightarrow> state" where
  "main h = app_catch h (app_begin h init)"

definition exec :: "'n host \<Rightarrow> event list \<Rightarrow> state" where
  "exec h evs = fold (step h) evs (main h)"

subsection \<open>A concrete host\<close>

text \<open>
  A host to run the program on. Its numbers are the integers and \<open>NaN\<close>; its number
  conversion reads strings of decimal digits (the empty string is \<open>0\<close>) and gives \<open>NaN\<close>
  for every other string; its \<open>JSON.parse\<close> knows the documents of a table and rejects
  every other text.
\<close>

definition digit_of :: "char \<Rightarrow> nat option" where
  "digit_of c = (let n = of_char c :: nat in if 48 \<le> n \<and> n \<le> 57 then Some (n - 48) else None)"

fun digits_value :: "nat \<Rightarrow> string \<Rightarrow> nat option" where
  "digits_value acc [] = Some acc"
| "digits_value acc (c # cs) =
     (case digit_of c of None \<Rightarrow> None | Some d \<Rightarrow> digits_value (10 * acc + d) cs)"

definition decimal_StringToNumber :: "string \<Rightarrow> jsnum" where
  "decimal_StringToNumber s = (case digits_value 0 s of None \<Rightarrow> NaN | Some n \<Rightarrow> Num (int n))"

fun show_nat :: "nat \<Rightarrow> string" where
  "show_nat n =
     (if n < 10 then [''0123456789'' ! n]
      else show_nat (n div 10) @ [''0123456789'' ! (n mod 10)])"

declare show_nat.simps [simp del]

definition show_int :: "int \<Rightarrow> string" where
  "show_int i = (if i < 0 then ''-'' @ show_nat (nat (- i)) else show_nat (nat i))"

fun jsnum_add :: "jsnum \<Rightarrow> jsnum \<Rightarrow> jsnum" where
  "jsnum_add (Num a) (Num b) = Num (a + b)"
| "jsnum_add a b = NaN"

fun jsnum_less :: "jsnum \<Rightarrow> jsnum \<Rightarrow> bool" where
  "jsnum_less (Num a) (Num b) = (a < b)"
| "jsnum_less a b = False"

fun jsnum_truthy :: "jsnum \<Rightarrow> bool" where
  "jsnum_truthy (Num a) = (a \<noteq> 0)"
| "jsnum_truthy NaN = False"

fun jsnum_ToString :: "jsnum \<Rightarrow> string" where
  "jsnum_ToString (Num a) = show_int a"
| "jsnum_ToString NaN = ''NaN''"

definition syntax_error :: thrown where
  "syntax_error = \<lparr>err_message = Some ''Unexpected token'', err_stack = None,
                    err_string = ''SyntaxError: Unexpected token''\<rparr>"

text \<open>An audit document with the given vulnerability counts.\<close>

definition audit_document :: "(string \<times> jsnum json) list \<Rightarrow> jsnum json" where
  "audit_document counts = JObj [(''metadata'', JObj [(''vulnerabilities'', JObj counts)])]"

definition high2 :: string where
  \<open>high2 = ''{"metadata":{"vulnerabilities":{"high":2}}}''\<close>

definition low1 :: string where
  \<open>low1 = ''{"metadata":{"vulnerabilities":{"low":1}}}''\<close>

definition info0 :: string where
  \<open>info0 = ''{"metadata":{"vulnerabilities":{"info":0}}}''\<close>

definition high2_note :: string where
  \<open>high2_note = ''{"metadata":{"vulnerabilities":{"high":2,"note":"n/a"}}}''\<close>

definition high_toString :: string where
  \<open>high_toString = ''{"metadata":{"vulnerabilities":{"high":{"toString":0}}}}''\<close>

definition table_parse :: "string \<Rightarrow> thrown + jsnum json" where
  "table_parse s =
     (if s = ''null'' then Inr JNull
      else if s = high2 then Inr (audit_document [(''high'', JNum (Num 2))])
      else if s = low1 then Inr (audit_document [(''low'', JNum (Num 1))])
      else if s = info0 then Inr (audit_document [(''info'', JNum (Num 0))])
      else if s = high2_note
      then Inr (audit_document [(''high'', JNum (Num 2)), (''note'', JStr ''n/a'')])
      else if s = high_toString
      then Inr (audit_document [(''high'', JObj [(''toString'', JNum (Num 0))])])
      else Inl syntax_error)"

definition example_host :: "(string \<times> string) list \<Rightarrow> spawn_result \<Rightarrow> jsnum host" where
  "example_host vars res =
     \<lparr>env = map_of vars, spawnSync = res, JSON_parse = table_parse,
      StringToNumber = decimal_StringToNumber,
      Error_stack = (\<lambda>name msg. name @ '': '' @ msg),
      num_zero = Num 0, num_one = Num 1, num_add = jsnum_add, num_less = jsnum_less,
      num_truthy = jsnum_truthy, num_ToString = jsnum_ToString,
      num_of_string = decimal_StringToNumber\<rparr>"

definition no_output :: spawn_result where
  "no_output = \<lparr>error = None, stdout = None\<rparr>"

definition good_validator :: validator_module where
  "good_validator = \<lparr>default_export = Some Returns, validateDependencies_export = None\<rparr>"

definition some_error :: thrown where
  "some_error = \<lparr>err_message = Some ''EADDRINUSE'', err_stack = None,
                  err_string = ''Error: EADDRINUSE''\<rparr>"

definition throwing_validator :: validator_module where
  "throwing_validator =
     \<lparr>default_export = None, validateDependencies_export = Some (Throws some_error)\<rparr>"

definition good_server :: server_module where
  "good_server = \<lparr>start = Returns, stop = Returns\<rparr>"

definition empty_output :: spawn_result where
  "empty_output = \<lparr>error = None, stdout = Some []\<rparr>"

definition high2_output :: spawn_result where
  "high2_output = \<lparr>error = None, stdout = Some high2\<rparr>"

definition audit_host :: "string \<Rightarrow> jsnum host" where
  "audit_host out = example_host [(''ENFORCE_AUDIT'', ''true'')] \<lparr>error = None, stdout = Some out\<rparr>"

subsection \<open>Derived notions used in the statements\<close>

text \<open>
  What the promise returned by \<open>startServerWithTimeout\<close> has become after the given
  settlements, in the order in which the event loop delivers them.
\<close>

definition start_outcome :: "'n host \<Rightarrow> server_module \<Rightarrow> int option \<Rightarrow> race_event list \<Rightarrow> promise" where
  "start_outcome h serverModule timeoutMs evs =
     fold (race_settle h) evs (snd (startServerWithTimeout h serverModule timeoutMs))"

text \<open>
  A bootstrap that succeeds, as a list of macrotasks: the validator module loads, the
  validator passes, the server module loads, \<open>start()\<close> fulfils.
\<close>

definition startup_events :: "event list" where
  "startup_events =
     [ValidatorImported (Inr good_validator), ValidatorSettled (Inr ()),
      ServerImported (Inr good_server), RaceEvent (StartSettled (Inr ()))]"

text \<open>
  The steps of the bootstrap among the effects, and the order in which a bootstrap that
  succeeds performs them.
\<close>

fun is_bootstrap_step :: "effect \<Rightarrow> bool" where
  "is_bootstrap_step (Spawn cmd args) = True"
| "is_bootstrap_step (Import path) = True"
| "is_bootstrap_step CallValidate = True"
| "is_bootstrap_step CallStart = True"
| "is_bootstrap_step (SetTimeout ms) = True"
| "is_bootstrap_step (ConsoleLog line) = (line = [''[SERVER] started''])"
| "is_bootstrap_step e = False"

definition bootstrap_steps :: "'n host \<Rightarrow> effect list" where
  "bootstrap_steps h =
     fst (runOptionalAuditCheck h) @
     [Import ''lib/startup/validateDependenciesBasic.js'', CallValidate, Import ''./server.js'',
      CallStart, SetTimeout (startup_timeout h), ConsoleLog [''[SERVER] started'']]"

text \<open>
  How far the bootstrap steps have come, by the place where \<open>app()\<close> stands: used as
  the invariant behind the order of the steps.
\<close>

definition order_inv :: "'n host \<Rightarrow> state \<Rightarrow> bool" where
  "order_inv h st =
     (let a = fst (runOptionalAuditCheck h);
          performed = filter is_bootstrap_step (effects st);
          iv = Import ''lib/startup/validateDependenciesBasic.js'';
          isrv = Import ''./server.js''
      in case pc st of
           Entry \<Rightarrow> False
         | LoadingValidator \<Rightarrow> performed = a @ [iv]
         | Validating \<Rightarrow> performed = a @ [iv, CallValidate]
         | LoadingServer \<Rightarrow> performed = a @ [iv, CallValidate, isrv]
         | Starting server \<Rightarrow>
             performed = a @ [iv, CallValidate, isrv, CallStart, SetTimeout (startup_timeout h)]
         | Started \<Rightarrow> performed = bootstrap_steps h
         | Failed \<Rightarrow> prefix performed (bootstrap_steps h))"

section \<open>Properties\<close>

lemma example_host_simps [simp]:
  "env (example_host vars res) = map_of vars"
  "spawnSync (example_host vars res) = res"
  "JSON_parse (example_host vars res) = table_parse"
  "StringToNumber (example_host vars res) = decimal_StringToNumber"
  "num_zero (example_host vars res) = Num 0"
  "num_one (example_host vars res) = Num 1"
  "num_add (example_host vars res) = jsnum_add"
  "num_less (example_host vars res) = jsnum_less"
  "num_truthy (example_host vars res) = jsnum_truthy"
  "num_ToString (example_host vars res) = jsnum_ToString"
  "num_of_string (example_host vars res) = decimal_StringToNumber"
  by (simp_all add: example_host_def)

lemma high2_ne [simp]: "high2 \<noteq> []" "''null'' \<noteq> high2" "high2 \<noteq> ''null''"
  by (simp_all add: high2_def)

lemma table_parse_documents:
  "table_parse ''null'' = Inr JNull"
  "table_parse high2 = Inr (audit_document [(''high'', JNum (Num 2))])"
  "table_parse low1 = Inr (audit_document [(''low'', JNum (Num 1))])"
  "table_parse info0 = Inr (audit_document [(''info'', JNum (Num 0))])"
  "table_parse high2_note = Inr (audit_document [(''high'', JNum (Num 2)), (''note'', JStr ''n/a'')])"
  "table_parse high_toString = Inr (audit_document [(''high'', JObj [(''toString'', JNum (Num 0))])])"
  by (simp_all add: table_parse_def high2_def low1_def info0_def high2_note_def high_toString_def)

lemma audit_host_simps [simp]:
  "env (audit_host out) ''ENFORCE_AUDIT'' = Some ''true''"
  "error (spawnSync (audit_host out)) = None"
  "stdout (spawnSync (audit_host out)) = Some out"
  "JSON_parse (audit_host out) = table_parse"
  "num_zero (audit_host out) = Num 0"
  "num_one (audit_host out) = Num 1"
  "num_add (audit_host out) = jsnum_add"
  "num_less (audit_host out) = jsnum_less"
  "num_truthy (audit_host out) = jsnum_truthy"
  "num_ToString (audit_host out) = jsnum_ToString"
  "num_of_string (audit_host out) = decimal_StringToNumber"
  by (simp_all add: audit_host_def)

lemma documents_nonempty [simp]:
  "high2_note \<noteq> []" "low1 \<noteq> []" "info0 \<noteq> []" "high_toString \<noteq> []"
  by (simp_all add: high2_note_def low1_def info0_def high_toString_def)

subsection \<open>The audit check\<close>

text \<open>
  Claim C5: when \<open>ENFORCE_AUDIT\<close> is unset or has any value other than \<open>"true"\<close>,
  \<open>runOptionalAuditCheck\<close> returns \<open>ok: true\<close> at once and has no effect: the audit tool
  is not spawned.
\<close>

theorem audit_skipped_unless_enforced:
  "env h ''ENFORCE_AUDIT'' \<noteq> Some ''true'' \<Longrightarrow>
   runOptionalAuditCheck h = ([], \<lparr>ok = True, message = ''audit skipped'', details = None\<rparr>)"
  by (simp add: runOptionalAuditCheck_def)

text \<open>The variable set to \<open>"false"\<close>, and the variable unset.\<close>

theorem audit_skipped_unless_enforced_witness:
  "env (example_host [(''ENFORCE_AUDIT'', ''false'')] no_output) ''ENFORCE_AUDIT'' \<noteq> Some ''true'' \<and>
   runOptionalAuditCheck (example_host [(''ENFORCE_AUDIT'', ''false'')] no_output) =
     ([], \<lparr>ok = True, message = ''audit skipped'', details = None\<rparr>) \<and>
   env (example_host [] no_output) ''ENFORCE_AUDIT'' \<noteq> Some ''true'' \<and>
   runOptionalAuditCheck (example_host [] no_output) =
     ([], \<lparr>ok = True, message = ''audit skipped'', details = None\<rparr>)"
  using audit_skipped_unless_enforced [of "example_host [(''ENFORCE_AUDIT'', ''false'')] no_output"]
        audit_skipped_unless_enforced [of "example_host [] no_output"]
  by simp

text \<open>
  Claim C8: with \<open>ENFORCE_AUDIT="true"\<close>, when the tool ran without an execution error
  and its output is empty (\<open>null\<close> or the empty string), the result is
  \<open>ok: true, message: 'no audit output'\<close>, whatever \<open>JSON.parse\<close> would do: the output
  is not parsed.
\<close>

theorem empty_output_passes:
  assumes "env h ''ENFORCE_AUDIT'' = Some ''true''"
    and "error (spawnSync h) = None"
    and "stdout (spawnSync h) = None \<or> stdout (spawnSync h) = Some []"
  shows "runOptionalAuditCheck (h\<lparr>JSON_parse := p\<rparr>) =
           ([Spawn ''npm'' [''audit'', ''--json'', ''--production'']],
            \<lparr>ok = True, message = ''no audit output'', details = None\<rparr>)"
  using assms by (auto simp: runOptionalAuditCheck_def audit_try_def)

text \<open>
  No output at all and the empty string, on a host whose \<open>JSON.parse\<close> rejects every
  text.
\<close>

theorem empty_output_passes_witness:
  "env (example_host [(''ENFORCE_AUDIT'', ''true'')] no_output) ''ENFORCE_AUDIT'' = Some ''true'' \<and>
   error (spawnSync (example_host [(''ENFORCE_AUDIT'', ''true'')] no_output)) = None \<and>
   stdout (spawnSync (example_host [(''ENFORCE_AUDIT'', ''true'')] no_output)) = None \<and>
   runOptionalAuditCheck
     ((example_host [(''ENFORCE_AUDIT'', ''true'')] no_output)\<lparr>JSON_parse := \<lambda>s. Inl syntax_error\<rparr>) =
     ([Spawn ''npm'' [''audit'', ''--json'', ''--production'']],
      \<lparr>ok = True, message = ''no audit output'', details = None\<rparr>) \<and>
   stdout (spawnSync (example_host [(''ENFORCE_AUDIT'', ''true'')] empty_output)) = Some [] \<and>
   runOptionalAuditCheck
     ((example_host [(''ENFORCE_AUDIT'', ''true'')] empty_output)\<lparr>JSON_parse := \<lambda>s. Inl syntax_error\<rparr>) =
     ([Spawn ''npm'' [''audit'', ''--json'', ''--production'']],
      \<lparr>ok = True, message = ''no audit output'', details = None\<rparr>)"
  using empty_output_passes [of "example_host [(''ENFORCE_AUDIT'', ''true'')] no_output" "\<lambda>s. Inl syntax_error"]
        empty_output_passes [of "example_host [(''ENFORCE_AUDIT'', ''true'')] empty_output" "\<lambda>s. Inl syntax_error"]
  by (simp add: no_output_def empty_output_def)








lemmas audit_eval =
  runOptionalAuditCheck_def audit_try_def totalVulns_def table_parse_documents audit_document_def
  show_int_def show_nat.simps decimal_StringToNumber_def digit_of_def



subsection \<open>The process: how a step changes the state\<close>

lemma step_exited: "exited st \<noteq> None \<Longrightarrow> step h ev st = st"
  by (simp add: step_def)

lemma fold_step_exited: "exited st \<noteq> None \<Longrightarrow> fold (step h) evs st = st"
  by (induction evs) (simp_all add: step_exited)

lemma fold_step_inv:
  assumes "P st" and "\<And>s ev. P s \<Longrightarrow> P (step h ev s)"
  shows "P (fold (step h) evs st)"
  using assms(1) by (induction evs arbitrary: st) (simp_all add: assms(2))

lemma exec_inv:
  assumes "P (main h)" and "\<And>s ev. P s \<Longrightarrow> P (step h ev s)"
  shows "P (exec h evs)"
  unfolding exec_def using assms by (rule fold_step_inv)

lemma race_settle_Pending:
  "race_settle h re Pending =
     (case re of
        StartSettled (Inl e) \<Rightarrow> Rejected e
      | StartSettled (Inr u) \<Rightarrow> Fulfilled
      | TimerFired \<Rightarrow> Rejected (new_Error h ''Server start timed out''))"
  by (cases re) (simp_all split: sum.splits)

lemma app_catch_fields [simp]:
  "serverInstance (app_catch h (s, r)) = serverInstance s"
  "shuttingDown (app_catch h (s, r)) = shuttingDown s"
  "stopping (app_catch h (s, r)) = stopping s"
  "pc (app_catch h (s, r)) = (case r of None \<Rightarrow> pc s | Some e \<Rightarrow> Failed)"
  "exited (app_catch h (s, r)) = (case r of None \<Rightarrow> exited s | Some e \<Rightarrow> Some 1)"
  "effects (app_catch h (s, r)) =
     effects s @ (case r of None \<Rightarrow> [] | Some e \<Rightarrow> niceErrorLog h e @ [Exit 1])"
  by (simp_all add: app_catch_def startup_failed_def process_exit_def emit_def split: option.splits)

lemma emit_fields [simp]:
  "serverInstance (emit es s) = serverInstance s"
  "shuttingDown (emit es s) = shuttingDown s"
  "stopping (emit es s) = stopping s"
  "pc (emit es s) = pc s"
  "exited (emit es s) = exited s"
  "effects (emit es s) = effects s @ es"
  by (simp_all add: emit_def)

lemma process_exit_fields [simp]:
  "serverInstance (process_exit c s) = serverInstance s"
  "shuttingDown (process_exit c s) = shuttingDown s"
  "stopping (process_exit c s) = stopping s"
  "pc (process_exit c s) = pc s"
  "exited (process_exit c s) = Some c"
  "effects (process_exit c s) = effects s @ [Exit c]"
  by (simp_all add: process_exit_def)

lemmas app_defs =
  after_validator_import_def after_validator_def after_server_import_def after_race_def
  app_finish_def startServerWithTimeout_def race_settle_Pending

lemmas handler_defs =
  shutdown_def stop_settled_def unhandledRejection_def uncaughtException_def

lemmas step_splits =
  sum.splits callee.splits option.splits race_event.splits


lemma main_fields:
  "serverInstance (main h) = None"
  "shuttingDown (main h) = False"
  "stopping (main h) = False"
  "pc (main h) = (if ok (snd (runOptionalAuditCheck h)) then LoadingValidator else Failed)"
  "exited (main h) = (if ok (snd (runOptionalAuditCheck h)) then None else Some 1)"
  "effects (main h) =
     fst (runOptionalAuditCheck h) @
     (if ok (snd (runOptionalAuditCheck h)) then [Import ''lib/startup/validateDependenciesBasic.js'']
      else niceErrorLog h (new_Error h (''Startup blocked: '' @ message (snd (runOptionalAuditCheck h)))) @
           [Exit 1])"
  by (simp_all add: main_def app_begin_def init_def Let_def split: prod.splits)

lemma stopping_inv_step:
  assumes "stopping st \<longrightarrow> shuttingDown st \<and> serverInstance st \<noteq> None"
  shows "stopping (step h ev st) \<longrightarrow> shuttingDown (step h ev st) \<and> serverInstance (step h ev st) \<noteq> None"
  using assms
  by (cases ev; cases "pc st")
     (auto simp: step_def app_defs handler_defs Let_def split: step_splits)

lemma failed_inv_step:
  assumes "pc st = Failed \<longrightarrow> exited st = Some 1"
  shows "pc (step h ev st) = Failed \<longrightarrow> exited (step h ev st) = Some 1"
  using assms
  by (cases ev; cases "pc st")
     (auto simp: step_def app_defs handler_defs Let_def split: step_splits)

lemma live_shutdown_inv_step:
  assumes "shuttingDown st \<and> exited st = None \<longrightarrow> stopping st"
  shows "shuttingDown (step h ev st) \<and> exited (step h ev st) = None \<longrightarrow> stopping (step h ev st)"
  using assms
  by (cases ev; cases "pc st")
     (auto simp: step_def app_defs handler_defs Let_def split: step_splits)

lemma CallStop_inv_step:
  assumes "CallStop \<in> set (effects st) \<longrightarrow> shuttingDown st"
  shows "CallStop \<in> set (effects (step h ev st)) \<longrightarrow> shuttingDown (step h ev st)"
  using assms
  by (cases ev; cases "pc st")
     (auto simp: step_def app_defs handler_defs niceErrorLog_def Let_def split: step_splits)

subsection \<open>The deadline race\<close>

lemma race_settle_settled: "p \<noteq> Pending \<Longrightarrow> race_settle h re p = p"
  by (cases "(h, re, p)" rule: race_settle.cases) auto

lemma fold_race_settled: "p \<noteq> Pending \<Longrightarrow> fold (race_settle h) evs p = p"
  by (induction evs) (simp_all add: race_settle_settled)

lemma start_outcome_Returns:
  "start srv = Returns \<Longrightarrow>
   start_outcome h srv t evs = (case evs of [] \<Rightarrow> Pending | re # rest \<Rightarrow> race_settle h re Pending)"
  by (cases evs) (simp_all add: start_outcome_def startServerWithTimeout_def fold_race_settled
       race_settle_Pending split: race_event.splits sum.splits)

lemma start_outcome_not_Returns:
  "start srv \<noteq> Returns \<Longrightarrow> start_outcome h srv t evs \<noteq> Fulfilled"
  by (cases "start srv") (simp_all add: start_outcome_def startServerWithTimeout_def fold_race_settled)

text \<open>
  Claim C1, as the code has it: the promise of \<open>startServerWithTimeout\<close> is fulfilled
  exactly when \<open>start()\<close> returns a promise whose fulfilment is the first settlement of
  the race, before the timer fires. Until something settles it stays pending; when
  \<open>start()\<close> rejects first it is rejected with that error; when the timer fires first, as
  it does for a \<open>start()\<close> that never settles, it is rejected with
  \<open>Server start timed out\<close>, whatever \<open>start()\<close> does later. The call's only effects are
  the call of \<open>start()\<close> and the timer, and on the timeout the process only logs and
  exits: nothing cancels the abandoned \<open>start()\<close>.
\<close>

theorem start_outcome_race:
  "(start_outcome h srv t evs = Fulfilled \<longleftrightarrow>
      start srv = Returns \<and> (\<exists>rest. evs = StartSettled (Inr ()) # rest)) \<and>
   (start srv = Returns \<longrightarrow>
      start_outcome h srv t [] = Pending \<and>
      start_outcome h srv t (StartSettled (Inl e) # rest) = Rejected e \<and>
      start_outcome h srv t (TimerFired # rest) = Rejected (new_Error h ''Server start timed out'') \<and>
      fst (startServerWithTimeout h srv t) =
        [CallStart, SetTimeout (case t of None \<Rightarrow> 30000 | Some ms \<Rightarrow> ms)]) \<and>
   (exited st = None \<longrightarrow> pc st = Starting srv \<longrightarrow>
      step h (RaceEvent TimerFired) st =
        startup_failed h (new_Error h ''Server start timed out'') st)"
proof -
  have a: "start_outcome h srv t evs = Fulfilled \<longleftrightarrow>
      start srv = Returns \<and> (\<exists>rest. evs = StartSettled (Inr ()) # rest)"
  proof (cases "start srv = Returns")
    case True
    then show ?thesis
      by (auto simp: start_outcome_Returns race_settle_Pending
            split: list.splits race_event.splits sum.splits)
  next
    case False
    then show ?thesis by (simp add: start_outcome_not_Returns)
  qed
  have b: "start srv = Returns \<longrightarrow>
      start_outcome h srv t [] = Pending \<and>
      start_outcome h srv t (StartSettled (Inl e) # rest) = Rejected e \<and>
      start_outcome h srv t (TimerFired # rest) = Rejected (new_Error h ''Server start timed out'') \<and>
      fst (startServerWithTimeout h srv t) =
        [CallStart, SetTimeout (case t of None \<Rightarrow> 30000 | Some ms \<Rightarrow> ms)]"
    by (simp add: start_outcome_Returns startServerWithTimeout_def)
  have c: "exited st = None \<longrightarrow> pc st = Starting srv \<longrightarrow>
      step h (RaceEvent TimerFired) st =
        startup_failed h (new_Error h ''Server start timed out'') st"
    by (simp add: step_def after_race_def app_catch_def)
  from a b c show ?thesis by blast
qed

text \<open>A deadline of 50 ms: \<open>start()\<close> fulfilling first, and the timer firing first.\<close>

theorem start_outcome_race_witness:
  "start_outcome (example_host [] no_output) good_server (Some 50) [StartSettled (Inr ()), TimerFired] = Fulfilled \<and>
   start good_server = Returns \<and>
   start_outcome (example_host [] no_output) good_server (Some 50) [TimerFired, StartSettled (Inr ())] =
     Rejected (new_Error (example_host [] no_output) ''Server start timed out'') \<and>
   fst (startServerWithTimeout (example_host [] no_output) good_server (Some 50)) = [CallStart, SetTimeout 50]"
  using start_outcome_race [of "example_host [] no_output" good_server "Some 50"
          "[StartSettled (Inr ()), TimerFired]" some_error "[StartSettled (Inr ())]" init]
  by (simp add: good_server_def)

text \<open>
  \<open>start()\<close> settles before the deadline, by rejecting: the call does not resolve
  successfully.
\<close>

theorem start_rejecting_before_deadline:
  "start good_server = Returns \<and>
   start_outcome (example_host [] no_output) good_server (Some 50) [StartSettled (Inl some_error), TimerFired] =
     Rejected some_error \<and>
   start_outcome (example_host [] no_output) good_server (Some 50) [StartSettled (Inl some_error), TimerFired] \<noteq>
     Fulfilled"
  by (simp add: good_server_def start_outcome_def startServerWithTimeout_def)

text \<open>
  Claim C9: when \<open>Number(process.env.STARTUP_TIMEOUT_MS)\<close> is \<open>NaN\<close> or \<open>0\<close>, the computed
  timeout is \<open>30000\<close>, and that is the delay of the timer armed when \<open>app()\<close> starts the
  server.
\<close>

theorem default_timeout:
  assumes "Number h (env h ''STARTUP_TIMEOUT_MS'') = NaN \<or> Number h (env h ''STARTUP_TIMEOUT_MS'') = Num 0"
  shows "startup_timeout h = 30000 \<and>
         (exited st = None \<longrightarrow> pc st = LoadingServer \<longrightarrow> start server = Returns \<longrightarrow>
            step h (ServerImported (Inr server)) st =
              (emit [CallStart, SetTimeout 30000] st)\<lparr>pc := Starting server\<rparr>)"
  using assms
  by (auto simp: startup_timeout_def step_def after_server_import_def startServerWithTimeout_def
        app_catch_def)

text \<open>
  The variable set to \<open>"0"\<close> and to a text that is no number; the bootstrap up to the
  start of the server with the variable set to \<open>"0"\<close>.
\<close>

theorem default_timeout_witness:
  "(Number (example_host [(''STARTUP_TIMEOUT_MS'', ''0'')] no_output)
      (env (example_host [(''STARTUP_TIMEOUT_MS'', ''0'')] no_output) ''STARTUP_TIMEOUT_MS'') = Num 0) \<and>
   startup_timeout (example_host [(''STARTUP_TIMEOUT_MS'', ''0'')] no_output) = 30000 \<and>
   (Number (example_host [(''STARTUP_TIMEOUT_MS'', ''soon'')] no_output)
      (env (example_host [(''STARTUP_TIMEOUT_MS'', ''soon'')] no_output) ''STARTUP_TIMEOUT_MS'') = NaN) \<and>
   startup_timeout (example_host [(''STARTUP_TIMEOUT_MS'', ''soon'')] no_output) = 30000 \<and>
   effects (exec (example_host [(''STARTUP_TIMEOUT_MS'', ''0'')] no_output)
     [ValidatorImported (Inr good_validator), ValidatorSettled (Inr ()), ServerImported (Inr good_server)]) =
     [Import ''lib/startup/validateDependenciesBasic.js'', CallValidate, Import ''./server.js'',
      CallStart, SetTimeout 30000]"
proof -
  let ?h0 = "example_host [(''STARTUP_TIMEOUT_MS'', ''0'')] no_output"
  let ?st = "exec ?h0 [ValidatorImported (Inr good_validator), ValidatorSettled (Inr ())]"
  have n0: "Number ?h0 (env ?h0 ''STARTUP_TIMEOUT_MS'') = Num 0"
    by (simp add: Number_def decimal_StringToNumber_def digit_of_def)
  have n1: "Number (example_host [(''STARTUP_TIMEOUT_MS'', ''soon'')] no_output)
      (env (example_host [(''STARTUP_TIMEOUT_MS'', ''soon'')] no_output) ''STARTUP_TIMEOUT_MS'') = NaN"
    by (simp add: Number_def decimal_StringToNumber_def digit_of_def)
  have st: "exited ?st = None \<and> pc ?st = LoadingServer \<and>
            effects ?st = [Import ''lib/startup/validateDependenciesBasic.js'', CallValidate, Import ''./server.js'']"
    by (simp add: exec_def main_def app_begin_def runOptionalAuditCheck_def app_catch_def init_def
          emit_def step_def after_validator_import_def validateDependencies_def good_validator_def
          after_validator_def)
  have "exec ?h0 [ValidatorImported (Inr good_validator), ValidatorSettled (Inr ()), ServerImported (Inr good_server)]
        = step ?h0 (ServerImported (Inr good_server)) ?st"
    by (simp add: exec_def)
  with default_timeout [of ?h0 ?st good_server] n0 st
  have "effects (exec ?h0 [ValidatorImported (Inr good_validator), ValidatorSettled (Inr ()), ServerImported (Inr good_server)])
        = effects ?st @ [CallStart, SetTimeout 30000]"
    by (simp add: good_server_def emit_def)
  with st n0 n1 default_timeout [of ?h0] default_timeout [of "example_host [(''STARTUP_TIMEOUT_MS'', ''soon'')] no_output"]
  show ?thesis by simp
qed

subsection \<open>The fault handlers\<close>

text \<open>
  Claim C7: in a running process each of the two fault handlers always logs the fault;
  the process exits from the handler (with code 1) exactly when the handler's variable,
  \<open>CRASH_ON_UNHANDLED_REJECTION\<close> or \<open>CRASH_ON_UNCAUGHT_EXCEPTION\<close>, is \<open>"true"\<close>, and
  otherwise the log line is the only change and the process keeps running.
\<close>

theorem fault_handlers_exit_on_opt_in:
  assumes "exited st = None"
  shows "ConsoleError [''[UNHANDLED REJECTION]'', err_string reason]
           \<in> set (effects (step h (UnhandledRejection reason) st)) \<and>
         exited (step h (UnhandledRejection reason) st) =
           (if env h ''CRASH_ON_UNHANDLED_REJECTION'' = Some ''true'' then Some 1 else None) \<and>
         (env h ''CRASH_ON_UNHANDLED_REJECTION'' \<noteq> Some ''true'' \<longrightarrow>
            step h (UnhandledRejection reason) st =
              emit [ConsoleError [''[UNHANDLED REJECTION]'', err_string reason]] st) \<and>
         ConsoleError [''[UNCAUGHT EXCEPTION]'', err_text err]
           \<in> set (effects (step h (UncaughtException err) st)) \<and>
         exited (step h (UncaughtException err) st) =
           (if env h ''CRASH_ON_UNCAUGHT_EXCEPTION'' = Some ''true'' then Some 1 else None) \<and>
         (env h ''CRASH_ON_UNCAUGHT_EXCEPTION'' \<noteq> Some ''true'' \<longrightarrow>
            step h (UncaughtException err) st =
              emit [ConsoleError [''[UNCAUGHT EXCEPTION]'', err_text err]] st)"
  using assms by (simp add: step_def unhandledRejection_def uncaughtException_def)

text \<open>
  An unhandled rejection during the bootstrap, with the operator's opt-in and without.
\<close>

theorem fault_handlers_exit_on_opt_in_witness:
  "exited (main (example_host [(''CRASH_ON_UNHANDLED_REJECTION'', ''true'')] no_output)) = None \<and>
   exited (step (example_host [(''CRASH_ON_UNHANDLED_REJECTION'', ''true'')] no_output)
             (UnhandledRejection some_error)
             (main (example_host [(''CRASH_ON_UNHANDLED_REJECTION'', ''true'')] no_output))) = Some 1 \<and>
   exited (main (example_host [] no_output)) = None \<and>
   exited (step (example_host [] no_output) (UnhandledRejection some_error)
             (main (example_host [] no_output))) = None \<and>
   exited (step (example_host [] no_output) (UncaughtException some_error)
             (main (example_host [] no_output))) = None"
  using fault_handlers_exit_on_opt_in
          [of "main (example_host [(''CRASH_ON_UNHANDLED_REJECTION'', ''true'')] no_output)"
              some_error "example_host [(''CRASH_ON_UNHANDLED_REJECTION'', ''true'')] no_output" some_error]
        fault_handlers_exit_on_opt_in
          [of "main (example_host [] no_output)" some_error "example_host [] no_output" some_error]
  by (simp add: main_fields runOptionalAuditCheck_def)

subsection \<open>Graceful shutdown\<close>

text \<open>The process after a bootstrap that succeeded.\<close>

lemma running_state:
  "exec (example_host [] no_output) startup_events =
     \<lparr>serverInstance = Some good_server, shuttingDown = False, pc = Started, stopping = False,
      exited = None,
      effects = [Import ''lib/startup/validateDependenciesBasic.js'', CallValidate,
                 Import ''./server.js'', CallStart, SetTimeout 30000,
                 ConsoleLog [''[SERVER] started'']]\<rparr>"
  by (simp add: exec_def startup_events_def main_def app_begin_def runOptionalAuditCheck_def
        app_catch_def init_def emit_def step_def after_validator_import_def
        validateDependencies_def good_validator_def after_validator_def after_server_import_def
        startServerWithTimeout_def good_server_def startup_timeout_def Number_def after_race_def
        app_finish_def)

lemma shutdown_first:
  assumes "\<not> shuttingDown st"
  shows "shutdown sig st =
     (let st1 = emit [ConsoleLog [''[SHUTDOWN] Received '' @ signal_name sig @
                                        '', shutting down gracefully...'']]
                          (st\<lparr>shuttingDown := True\<rparr>) in
           case serverInstance st of
             None \<Rightarrow> process_exit 0 st1
           | Some server \<Rightarrow>
              (case stop server of
                 NotCallable \<Rightarrow> process_exit 0 st1
               | Throws err \<Rightarrow>
                   process_exit 0 (emit [CallStop, ConsoleError [''[SHUTDOWN ERROR]'', err_text err]] st1)
               | Returns \<Rightarrow> (emit [CallStop] st1)\<lparr>stopping := True\<rparr>))"
  using assms by (simp add: shutdown_def Let_def)

text \<open>Once shutdown has begun, no step calls stop().\<close>

lemma shuttingDown_step:
  assumes "shuttingDown st"
  shows "shuttingDown (step h ev st) \<and>
         count_list (effects (step h ev st)) CallStop = count_list (effects st) CallStop"
  using assms
  by (cases ev; cases "pc st")
     (auto simp: step_def app_defs handler_defs niceErrorLog_def Let_def split: step_splits)

lemma shuttingDown_fold:
  assumes "shuttingDown st"
  shows "shuttingDown (fold (step h) evs st) \<and>
         count_list (effects (fold (step h) evs st)) CallStop = count_list (effects st) CallStop"
  using assms
proof (induction evs arbitrary: st)
  case Nil
  then show ?case by simp
next
  case (Cons ev evs)
  from shuttingDown_step [OF Cons.prems, of h ev] Cons.IH [of "step h ev st"]
  show ?case by simp
qed

lemma signal_noop: "shuttingDown s \<Longrightarrow> step h (Signal sig) s = s"
  by (simp add: step_def shutdown_def)

lemma exec_append: "exec h (pre @ evs) = fold (step h) evs (exec h pre)"
  by (simp add: exec_def)

lemma CallStop_inv:
  "CallStop \<in> set (effects (exec h evs)) \<longrightarrow> shuttingDown (exec h evs)"
  by (rule exec_inv)
     (simp_all add: main_fields niceErrorLog_def runOptionalAuditCheck_def CallStop_inv_step)

text \<open>
  A first \<open>shutdown\<close> after which the process is still running has called \<open>stop()\<close>,
  once, and waits for it.
\<close>

lemma shutdown_still_running:
  assumes "\<not> shuttingDown st" and "exited (shutdown sig st) = None"
  shows "shuttingDown (shutdown sig st) \<and>
         count_list (effects (shutdown sig st)) CallStop = count_list (effects st) CallStop + 1"
  using assms
  by (auto simp: shutdown_first Let_def split: option.splits callee.splits)

text \<open>
  Claim C2: take any run in which \<open>shutdown\<close> is invoked a first time (in a running
  process that is not yet shutting down) and the process is still running when a second
  signal arrives. Then, at every later point of the run, \<open>stop()\<close> has been called
  exactly once; the second invocation leaves the state as it found it; and \<open>shutdown\<close>
  called while \<open>shuttingDown\<close> is true changes nothing.
\<close>

theorem shutdown_idempotent:
  assumes "exited (exec h pre) = None" and "\<not> shuttingDown (exec h pre)"
    and "exited (exec h (pre @ Signal sig # between)) = None"
  shows "count_list (effects (exec h (pre @ Signal sig # between @ Signal sig' # later))) CallStop = 1 \<and>
         exec h (pre @ Signal sig # between @ [Signal sig']) = exec h (pre @ Signal sig # between) \<and>
         (\<forall>s. shuttingDown s \<longrightarrow> shutdown sig' s = s)"
proof -
  let ?st = "exec h pre"
  let ?s1 = "shutdown sig ?st"
  have s1: "step h (Signal sig) ?st = ?s1"
    using assms(1) by (simp add: step_def)
  have run: "exec h (pre @ Signal sig # evs) = fold (step h) evs ?s1" for evs
    by (simp add: exec_append s1)
  have live1: "exited ?s1 = None"
  proof (rule ccontr)
    assume "exited ?s1 \<noteq> None"
    then have "fold (step h) between ?s1 = ?s1"
      by (rule fold_step_exited)
    with assms(3) \<open>exited ?s1 \<noteq> None\<close> show False
      by (simp add: run)
  qed
  have zero: "count_list (effects ?st) CallStop = 0"
    using CallStop_inv [of h pre] assms(2) by (simp add: count_list_0_iff)
  from shutdown_still_running [OF assms(2) live1] zero
  have sd: "shuttingDown ?s1" and one: "count_list (effects ?s1) CallStop = 1"
    by simp_all
  have a: "count_list (effects (exec h (pre @ Signal sig # between @ Signal sig' # later))) CallStop = 1"
    using shuttingDown_fold [OF sd, of h "between @ Signal sig' # later"] one
    by (simp only: run)
  have "shuttingDown (fold (step h) between ?s1)"
    using shuttingDown_fold [OF sd, of h between] by simp
  then have "step h (Signal sig') (fold (step h) between ?s1) = fold (step h) between ?s1"
    by (rule signal_noop)
  then have b: "exec h (pre @ Signal sig # between @ [Signal sig']) = exec h (pre @ Signal sig # between)"
    by (simp add: run)
  have c: "\<forall>s. shuttingDown s \<longrightarrow> shutdown sig' s = s"
    by (simp add: shutdown_def)
  from a b c show ?thesis by blast
qed

text \<open>
  A bootstrap that succeeds, then three signals and the fulfilment of \<open>stop()\<close>.
\<close>

theorem shutdown_idempotent_witness:
  "exited (exec (example_host [] no_output) startup_events) = None \<and>
   \<not> shuttingDown (exec (example_host [] no_output) startup_events) \<and>
   exited (exec (example_host [] no_output) (startup_events @ Signal SIGINT # [])) = None \<and>
   count_list
     (effects (exec (example_host [] no_output)
        (startup_events @ Signal SIGINT # [] @ Signal SIGTERM # [Signal SIGINT, StopSettled (Inr ())])))
     CallStop = 1"
proof -
  let ?h = "example_host [] no_output"
  have h1: "exited (exec ?h startup_events) = None" and h2: "\<not> shuttingDown (exec ?h startup_events)"
    by (simp_all add: running_state)
  have h3: "exited (exec ?h (startup_events @ Signal SIGINT # [])) = None"
    by (simp add: exec_append running_state step_def shutdown_def good_server_def emit_def)
  note once = shutdown_idempotent [OF h1 h2 h3, of SIGTERM "[Signal SIGINT, StopSettled (Inr ())]",
                THEN conjunct1]
  with h1 h2 h3 show ?thesis by blast
qed

lemma stopping_step:
  assumes "stopping st" and "exited (step h ev st) = None"
  shows "stopping (step h ev st)"
  using assms
  by (cases ev; cases "pc st")
     (auto simp: step_def app_defs handler_defs Let_def split: step_splits if_splits)

lemma stopping_fold:
  assumes "stopping st" and "exited (fold (step h) evs st) = None"
  shows "stopping (fold (step h) evs st)"
  using assms
proof (induction evs arbitrary: st)
  case Nil
  then show ?case by simp
next
  case (Cons ev evs)
  have live: "exited (step h ev st) = None"
  proof (rule ccontr)
    assume "exited (step h ev st) \<noteq> None"
    then have "fold (step h) evs (step h ev st) = step h ev st"
      by (rule fold_step_exited)
    with Cons.prems(2) \<open>exited (step h ev st) \<noteq> None\<close> show False by simp
  qed
  from stopping_step [OF Cons.prems(1) live] Cons.prems(2) Cons.IH [of "step h ev st"]
  show ?case by simp
qed

lemma stop_settled_exits:
  assumes "stopping s"
  shows "stop_settled r s =
           process_exit 0
             (emit [case r of
                      Inr u \<Rightarrow> ConsoleLog [''[SHUTDOWN] server.stop() completed'']
                    | Inl err \<Rightarrow> ConsoleError [''[SHUTDOWN ERROR]'', err_text err]]
                   (s\<lparr>stopping := False\<rparr>))"
  using assms by (simp add: stop_settled_def split: sum.splits)

text \<open>
  Claim C3: the first \<open>shutdown\<close> of a running process ends in \<open>process.exit(0)\<close> for
  every outcome of \<open>stop()\<close>. Without a server, or when the handle has no \<open>stop\<close>
  function, it exits at once; when \<open>stop()\<close> throws, the error is logged and the
  process exits with 0; when \<open>stop()\<close> returns a promise, then whatever happens in
  between (as long as the process is still running), its fulfilment is logged as
  completion, its rejection is logged as \<open>[SHUTDOWN ERROR]\<close>, and the process exits
  with 0 either way.
\<close>

theorem shutdown_exits_zero:
  assumes "exited st = None" and "\<not> shuttingDown st"
  shows "(serverInstance st = None \<or> (\<exists>server. serverInstance st = Some server \<and> stop server = NotCallable) \<longrightarrow>
            exited (step h (Signal sig) st) = Some 0 \<and>
            effects (step h (Signal sig) st) =
              effects st @ [ConsoleLog [''[SHUTDOWN] Received '' @ signal_name sig @
                                         '', shutting down gracefully...''], Exit 0]) \<and>
         (\<forall>server err. serverInstance st = Some server \<and> stop server = Throws err \<longrightarrow>
            exited (step h (Signal sig) st) = Some 0 \<and>
            effects (step h (Signal sig) st) =
              effects st @ [ConsoleLog [''[SHUTDOWN] Received '' @ signal_name sig @
                                         '', shutting down gracefully...''],
                            CallStop, ConsoleError [''[SHUTDOWN ERROR]'', err_text err], Exit 0]) \<and>
         (\<forall>server evs r. serverInstance st = Some server \<and> stop server = Returns \<and>
            exited (fold (step h) evs (step h (Signal sig) st)) = None \<longrightarrow>
            exited (step h (StopSettled r) (fold (step h) evs (step h (Signal sig) st))) = Some 0 \<and>
            effects (step h (StopSettled r) (fold (step h) evs (step h (Signal sig) st))) =
              effects (fold (step h) evs (step h (Signal sig) st)) @
                [case r of
                   Inr u \<Rightarrow> ConsoleLog [''[SHUTDOWN] server.stop() completed'']
                 | Inl err \<Rightarrow> ConsoleError [''[SHUTDOWN ERROR]'', err_text err],
                 Exit 0])"
proof -
  let ?s1 = "step h (Signal sig) st"
  have s1: "?s1 = shutdown sig st"
    using assms(1) by (simp add: step_def)
  have a: "serverInstance st = None \<or> (\<exists>server. serverInstance st = Some server \<and> stop server = NotCallable) \<longrightarrow>
            exited ?s1 = Some 0 \<and>
            effects ?s1 =
              effects st @ [ConsoleLog [''[SHUTDOWN] Received '' @ signal_name sig @
                                         '', shutting down gracefully...''], Exit 0]"
    using assms(2) by (auto simp: s1 shutdown_first Let_def)
  have b: "\<forall>server err. serverInstance st = Some server \<and> stop server = Throws err \<longrightarrow>
            exited ?s1 = Some 0 \<and>
            effects ?s1 =
              effects st @ [ConsoleLog [''[SHUTDOWN] Received '' @ signal_name sig @
                                         '', shutting down gracefully...''],
                            CallStop, ConsoleError [''[SHUTDOWN ERROR]'', err_text err], Exit 0]"
    using assms(2) by (auto simp: s1 shutdown_first Let_def)
  have c: "exited (step h (StopSettled r) (fold (step h) evs ?s1)) = Some 0 \<and>
            effects (step h (StopSettled r) (fold (step h) evs ?s1)) =
              effects (fold (step h) evs ?s1) @
                [case r of
                   Inr u \<Rightarrow> ConsoleLog [''[SHUTDOWN] server.stop() completed'']
                 | Inl err \<Rightarrow> ConsoleError [''[SHUTDOWN ERROR]'', err_text err],
                 Exit 0]"
    if "serverInstance st = Some server" "stop server = Returns"
       "exited (fold (step h) evs ?s1) = None" for server evs r
  proof -
    have "stopping ?s1"
      using assms(2) that(1,2) by (simp add: s1 shutdown_first Let_def)
    then have "stopping (fold (step h) evs ?s1)"
      using that(3) by (rule stopping_fold)
    then show ?thesis
      using that(3) by (simp add: step_def stop_settled_exits)
  qed
  from a b c show ?thesis by blast
qed

text \<open>
  Two signals, then \<open>stop()\<close> rejects: the process is still running before the
  rejection arrives, and exits with 0 on it.
\<close>

theorem shutdown_exits_zero_witness:
  "exited (exec (example_host [] no_output) startup_events) = None \<and>
   \<not> shuttingDown (exec (example_host [] no_output) startup_events) \<and>
   serverInstance (exec (example_host [] no_output) startup_events) = Some good_server \<and>
   stop good_server = Returns \<and>
   exited (fold (step (example_host [] no_output)) [Signal SIGTERM]
             (step (example_host [] no_output) (Signal SIGINT)
                (exec (example_host [] no_output) startup_events))) = None \<and>
   exited (step (example_host [] no_output) (StopSettled (Inl some_error))
             (fold (step (example_host [] no_output)) [Signal SIGTERM]
                (step (example_host [] no_output) (Signal SIGINT)
                   (exec (example_host [] no_output) startup_events)))) = Some 0"
proof -
  let ?h = "example_host [] no_output"
  let ?st = "exec ?h startup_events"
  have h1: "exited ?st = None" and h2: "\<not> shuttingDown ?st"
    and h3: "serverInstance ?st = Some good_server"
    by (simp_all add: running_state)
  have h4: "stop good_server = Returns"
    by (simp add: good_server_def)
  have live: "exited (fold (step ?h) [Signal SIGTERM] (step ?h (Signal SIGINT) ?st)) = None"
    by (simp add: running_state step_def shutdown_def good_server_def emit_def)
  note settled = shutdown_exits_zero [OF h1 h2, of ?h SIGINT, THEN conjunct2, THEN conjunct2,
                   rule_format, of good_server "[Signal SIGTERM]" "Inl some_error",
                   OF conjI [OF h3 conjI [OF h4 live]], THEN conjunct1]
  with h1 h2 h3 h4 live show ?thesis by blast
qed

subsection \<open>The server handle\<close>

lemma exec_snoc: "exec h (evs @ [ev]) = step h ev (exec h evs)"
  by (simp add: exec_def)

lemma serverInstance_step:
  "serverInstance (step h ev st) =
     (if exited st = None \<and> ev = RaceEvent (StartSettled (Inr ())) \<and> (\<exists>server. pc st = Starting server)
      then (case pc st of Starting server \<Rightarrow> Some server | _ \<Rightarrow> None)
      else serverInstance st)"
  by (cases ev; cases "pc st")
     (auto simp: step_def app_defs handler_defs Let_def split: step_splits)

lemma serverInstance_recorded:
  "serverInstance (exec h evs) = Some server \<Longrightarrow>
   \<exists>pre post. evs = pre @ RaceEvent (StartSettled (Inr ())) # post \<and>
              pc (exec h pre) = Starting server \<and> exited (exec h pre) = None"
proof (induction evs rule: rev_induct)
  case Nil
  then show ?case by (simp add: exec_def main_fields)
next
  case (snoc ev evs)
  show ?case
  proof (cases "exited (exec h evs) = None \<and> ev = RaceEvent (StartSettled (Inr ())) \<and>
                (\<exists>srv. pc (exec h evs) = Starting srv)")
    case True
    with snoc.prems have "pc (exec h evs) = Starting server"
      by (auto simp: exec_snoc serverInstance_step)
    with True have "evs @ [ev] = evs @ RaceEvent (StartSettled (Inr ())) # [] \<and>
        pc (exec h evs) = Starting server \<and> exited (exec h evs) = None"
      by simp
    then show ?thesis by blast
  next
    case False
    with snoc.prems have "serverInstance (exec h evs) = Some server"
      by (simp add: exec_snoc serverInstance_step)
    from snoc.IH [OF this] obtain pre post where
      "evs = pre @ RaceEvent (StartSettled (Inr ())) # post"
      "pc (exec h pre) = Starting server" "exited (exec h pre) = None"
      by blast
    then have "evs @ [ev] = pre @ RaceEvent (StartSettled (Inr ())) # (post @ [ev]) \<and>
        pc (exec h pre) = Starting server \<and> exited (exec h pre) = None"
      by simp
    then show ?thesis by blast
  qed
qed

lemma shutdown_inv:
  "(stopping (exec h evs) \<longrightarrow> shuttingDown (exec h evs) \<and> serverInstance (exec h evs) \<noteq> None) \<and>
   (shuttingDown (exec h evs) \<and> exited (exec h evs) = None \<longrightarrow> stopping (exec h evs)) \<and>
   (CallStop \<in> set (effects (exec h evs)) \<longrightarrow> shuttingDown (exec h evs))"
proof (rule exec_inv)
  show "(stopping (main h) \<longrightarrow> shuttingDown (main h) \<and> serverInstance (main h) \<noteq> None) \<and>
        (shuttingDown (main h) \<and> exited (main h) = None \<longrightarrow> stopping (main h)) \<and>
        (CallStop \<in> set (effects (main h)) \<longrightarrow> shuttingDown (main h))"
    by (auto simp: main_fields niceErrorLog_def runOptionalAuditCheck_def)
next
  fix s :: state and ev
  assume "(stopping s \<longrightarrow> shuttingDown s \<and> serverInstance s \<noteq> None) \<and>
          (shuttingDown s \<and> exited s = None \<longrightarrow> stopping s) \<and>
          (CallStop \<in> set (effects s) \<longrightarrow> shuttingDown s)"
  then show "(stopping (step h ev s) \<longrightarrow> shuttingDown (step h ev s) \<and> serverInstance (step h ev s) \<noteq> None) \<and>
        (shuttingDown (step h ev s) \<and> exited (step h ev s) = None \<longrightarrow> stopping (step h ev s)) \<and>
        (CallStop \<in> set (effects (step h ev s)) \<longrightarrow> shuttingDown (step h ev s))"
    using stopping_inv_step [of s h ev] live_shutdown_inv_step [of s h ev] CallStop_inv_step [of s h ev]
    by blast
qed

text \<open>
  Claim C10: whenever \<open>serverInstance\<close> holds a server, the macrotasks so far contain
  the fulfilment of \<open>start()\<close>, delivered while the process was running and \<open>app()\<close>
  stood at the race for that very server (so before the timer fired); and a shutdown
  signal to a running process whose \<open>serverInstance\<close> is still \<open>null\<close> exits with code 0
  without any call of \<open>stop()\<close>.
\<close>

theorem serverInstance_only_after_start:
  "(serverInstance (exec h evs) = Some server \<longrightarrow>
      (\<exists>pre post. evs = pre @ RaceEvent (StartSettled (Inr ())) # post \<and>
                  pc (exec h pre) = Starting server \<and> exited (exec h pre) = None)) \<and>
   (serverInstance (exec h evs) = None \<and> exited (exec h evs) = None \<longrightarrow>
      exited (step h (Signal sig) (exec h evs)) = Some 0 \<and>
      CallStop \<notin> set (effects (step h (Signal sig) (exec h evs))))"
proof -
  have b: "exited (step h (Signal sig) (exec h evs)) = Some 0 \<and>
      CallStop \<notin> set (effects (step h (Signal sig) (exec h evs)))"
    if none: "serverInstance (exec h evs) = None" and live: "exited (exec h evs) = None"
  proof -
    from shutdown_inv [of h evs] none live
    have nsd: "\<not> shuttingDown (exec h evs)" and nstop: "CallStop \<notin> set (effects (exec h evs))"
      by auto
    have "step h (Signal sig) (exec h evs) = shutdown sig (exec h evs)"
      using live by (simp add: step_def)
    with nsd nstop none show ?thesis
      by (simp add: shutdown_first Let_def)
  qed
  from serverInstance_recorded [of h evs server] b show ?thesis by blast
qed

text \<open>The bootstrap up to the pending race.\<close>

lemma pending_start_state:
  "exec (example_host [] no_output) (butlast startup_events) =
     \<lparr>serverInstance = None, shuttingDown = False, pc = Starting good_server, stopping = False,
      exited = None,
      effects = [Import ''lib/startup/validateDependenciesBasic.js'', CallValidate,
                 Import ''./server.js'', CallStart, SetTimeout 30000]\<rparr>"
  by (simp add: exec_def startup_events_def main_def app_begin_def runOptionalAuditCheck_def
        app_catch_def init_def emit_def step_def after_validator_import_def
        validateDependencies_def good_validator_def after_validator_def after_server_import_def
        startServerWithTimeout_def good_server_def startup_timeout_def Number_def)

text \<open>
  The bootstrap that succeeds records the handle at its last macrotask; a signal during
  the pending race exits with 0 and calls no \<open>stop()\<close>.
\<close>

theorem serverInstance_only_after_start_witness:
  "serverInstance (exec (example_host [] no_output) startup_events) = Some good_server \<and>
   (\<exists>pre post. startup_events = pre @ RaceEvent (StartSettled (Inr ())) # post \<and>
               pc (exec (example_host [] no_output) pre) = Starting good_server \<and>
               exited (exec (example_host [] no_output) pre) = None) \<and>
   serverInstance (exec (example_host [] no_output) (butlast startup_events)) = None \<and>
   exited (exec (example_host [] no_output) (butlast startup_events)) = None \<and>
   exited (step (example_host [] no_output) (Signal SIGTERM)
             (exec (example_host [] no_output) (butlast startup_events))) = Some 0 \<and>
   CallStop \<notin> set (effects (step (example_host [] no_output) (Signal SIGTERM)
                               (exec (example_host [] no_output) (butlast startup_events))))"
proof -
  let ?h = "example_host [] no_output"
  have s: "serverInstance (exec ?h startup_events) = Some good_server"
    by (simp add: running_state)
  have n: "serverInstance (exec ?h (butlast startup_events)) = None \<and>
           exited (exec ?h (butlast startup_events)) = None"
    by (simp add: pending_start_state)
  note a = serverInstance_only_after_start [of ?h startup_events good_server SIGTERM,
             THEN conjunct1, rule_format, OF s]
  note b = serverInstance_only_after_start [of ?h "butlast startup_events" good_server SIGTERM,
             THEN conjunct2, rule_format, OF n]
  from s n a b show ?thesis by blast
qed

subsection \<open>The bootstrap\<close>

lemma audit_effects:
  "fst (runOptionalAuditCheck h) = [] \<or>
   fst (runOptionalAuditCheck h) = [Spawn ''npm'' [''audit'', ''--json'', ''--production'']]"
  by (simp add: runOptionalAuditCheck_def)

lemma audit_effects_steps [simp]:
  "filter is_bootstrap_step (fst (runOptionalAuditCheck h)) = fst (runOptionalAuditCheck h)"
  using audit_effects [of h] by auto

lemma niceErrorLog_steps [simp]: "filter is_bootstrap_step (niceErrorLog h err) = []"
  by (simp add: niceErrorLog_def)

lemma order_inv_main: "order_inv h (main h)"
  by (simp add: order_inv_def main_fields bootstrap_steps_def)

lemma order_inv_step: "order_inv h st \<Longrightarrow> order_inv h (step h ev st)"
  by (cases ev; cases "pc st")
     (auto simp: order_inv_def bootstrap_steps_def step_def app_defs handler_defs Let_def
           split: step_splits)

lemma order_inv_exec: "order_inv h (exec h evs)"
  by (rule exec_inv) (simp_all add: order_inv_main order_inv_step)

lemma exit_code_inv:
  "(stopping (exec h evs) \<longrightarrow> shuttingDown (exec h evs)) \<and>
   (Exit 0 \<in> set (effects (exec h evs)) \<longrightarrow> shuttingDown (exec h evs)) \<and>
   (pc (exec h evs) = Failed \<longrightarrow> exited (exec h evs) = Some 1)"
proof (rule exec_inv)
  show "(stopping (main h) \<longrightarrow> shuttingDown (main h)) \<and>
        (Exit 0 \<in> set (effects (main h)) \<longrightarrow> shuttingDown (main h)) \<and>
        (pc (main h) = Failed \<longrightarrow> exited (main h) = Some 1)"
    using audit_effects [of h] by (auto simp: main_fields niceErrorLog_def)
next
  fix s :: state and ev
  assume inv: "(stopping s \<longrightarrow> shuttingDown s) \<and> (Exit 0 \<in> set (effects s) \<longrightarrow> shuttingDown s) \<and>
          (pc s = Failed \<longrightarrow> exited s = Some 1)"
  have a: "stopping (step h ev s) \<longrightarrow> shuttingDown (step h ev s)"
    using inv
    by (cases ev; cases "pc s")
       (auto simp: step_def app_defs handler_defs Let_def split: step_splits)
  have b: "Exit 0 \<in> set (effects (step h ev s)) \<longrightarrow> shuttingDown (step h ev s)"
    using inv
    by (cases ev; cases "pc s")
       (auto simp: step_def app_defs handler_defs niceErrorLog_def Let_def split: step_splits)
  from a b inv failed_inv_step [of s h ev]
  show "(stopping (step h ev s) \<longrightarrow> shuttingDown (step h ev s)) \<and>
        (Exit 0 \<in> set (effects (step h ev s)) \<longrightarrow> shuttingDown (step h ev s)) \<and>
        (pc (step h ev s) = Failed \<longrightarrow> exited (step h ev s) = Some 1)"
    by blast
qed

text \<open>A running process ends with status 0 by a shutdown or by running empty.\<close>

lemma exit_zero_step:
  assumes "exited st = None" and "stopping st \<longrightarrow> shuttingDown st"
    and "exited (step h ev st) = Some 0"
  shows "shuttingDown (step h ev st) \<or> (ev = Drained \<and> \<not> keeps_loop_alive (pc st))"
  using assms
  by (cases ev; cases "pc st")
     (auto simp: step_def app_defs handler_defs Let_def split: step_splits if_splits)

lemma exit_zero_cause:
  "exited (exec h evs) = Some 0 \<Longrightarrow>
   shuttingDown (exec h evs) \<or>
   (\<exists>pre post. evs = pre @ Drained # post \<and> exited (exec h pre) = None \<and>
               \<not> keeps_loop_alive (pc (exec h pre)))"
proof (induction evs rule: rev_induct)
  case Nil
  then show ?case by (simp add: exec_def main_fields split: if_splits)
next
  case (snoc ev evs)
  show ?case
  proof (cases "exited (exec h evs)")
    case None
    from exit_zero_step [OF None _ snoc.prems [unfolded exec_snoc]] exit_code_inv [of h evs]
    have "shuttingDown (exec h (evs @ [ev])) \<or> (ev = Drained \<and> \<not> keeps_loop_alive (pc (exec h evs)))"
      by (simp add: exec_snoc)
    with None show ?thesis by blast
  next
    case (Some c)
    then have same: "exec h (evs @ [ev]) = exec h evs"
      by (simp add: exec_snoc step_exited)
    with snoc.prems have "exited (exec h evs) = Some 0" by simp
    from snoc.IH [OF this] show ?thesis
    proof
      assume "shuttingDown (exec h evs)"
      with same show ?thesis by simp
    next
      assume "\<exists>pre post. evs = pre @ Drained # post \<and> exited (exec h pre) = None \<and>
                \<not> keeps_loop_alive (pc (exec h pre))"
      then obtain pre post where "evs = pre @ Drained # post" "exited (exec h pre) = None"
        "\<not> keeps_loop_alive (pc (exec h pre))"
        by blast
      then have "evs @ [ev] = pre @ Drained # (post @ [ev]) \<and> exited (exec h pre) = None \<and>
                 \<not> keeps_loop_alive (pc (exec h pre))"
        by simp
      then show ?thesis by blast
    qed
  qed
qed

lemma exec_append_exited:
  "exited (exec h evs) \<noteq> None \<Longrightarrow> exec h (evs @ later) = exec h evs"
  by (simp add: exec_def fold_step_exited)

lemma startup_failed_fields:
  "exited (startup_failed h err s) = Some 1"
  "pc (startup_failed h err s) = Failed"
  "effects (startup_failed h err s) = effects s @ niceErrorLog h err @ [Exit 1]"
  by (simp_all add: startup_failed_def)

lemma main_blocked:
  "\<not> ok (snd (runOptionalAuditCheck h)) \<Longrightarrow>
   main h = startup_failed h
              (new_Error h (''Startup blocked: '' @ message (snd (runOptionalAuditCheck h))))
              (emit (fst (runOptionalAuditCheck h)) init)"
  by (cases "runOptionalAuditCheck h") (simp add: main_def app_begin_def app_catch_def Let_def)

lemma emit_Nil [simp]: "emit [] st = st"
  by (simp add: emit_def)

text \<open>
  Claim C6, as the code has it: whatever macrotasks arrive, the bootstrap steps
  performed so far (audit spawn, validator import, validator call, server import, call
  of \<open>start()\<close> with its timer, the \<open>[SERVER] started\<close> line that goes with recording
  the handle) are an initial part of the fixed order, and all of it once \<open>app()\<close> has
  finished. A failed bootstrap has exit status 1. \<open>process.exit(0)\<close> is called only
  when \<open>shuttingDown\<close> is set; a process that has ended with status 0 has not failed
  its bootstrap, and it has ended by a shutdown or because its event loop ran empty
  while nothing kept it alive. Once the process has ended nothing changes any more.
  The handler of a failed \<open>app()\<close> logs \<open>[STARTUP ERROR]\<close> with the error's text and
  exits with 1, and every failing step ends there at once, with no later step: a
  blocking audit, a validator or server module that does not load, a validator (the
  default export, or else the export \<open>validateDependencies\<close>, or else the module) that
  is not callable, throws or rejects, a \<open>start\<close> that is not callable, throws or
  rejects, and the timeout.
\<close>

theorem bootstrap_fail_fast:
  "prefix (filter is_bootstrap_step (effects (exec h evs))) (bootstrap_steps h) \<and>
   (pc (exec h evs) = Started \<longrightarrow>
      filter is_bootstrap_step (effects (exec h evs)) = bootstrap_steps h) \<and>
   (pc (exec h evs) = Failed \<longrightarrow> exited (exec h evs) = Some 1) \<and>
   (Exit 0 \<in> set (effects (exec h evs)) \<longrightarrow> shuttingDown (exec h evs)) \<and>
   (exited (exec h evs) = Some 0 \<longrightarrow>
      pc (exec h evs) \<noteq> Failed \<and>
      (shuttingDown (exec h evs) \<or>
       (\<exists>pre post. evs = pre @ Drained # post \<and> exited (exec h pre) = None \<and>
                   \<not> keeps_loop_alive (pc (exec h pre))))) \<and>
   (exited (exec h evs) \<noteq> None \<longrightarrow> exec h (evs @ later) = exec h evs) \<and>
   exited (startup_failed h err s) = Some 1 \<and>
   effects (startup_failed h err s) = effects s @ niceErrorLog h err @ [Exit 1] \<and>
   hd (niceErrorLog h err) = ConsoleError [''[STARTUP ERROR]'', err_text err] \<and>
   (\<not> ok (snd (runOptionalAuditCheck h)) \<longrightarrow>
      main h = startup_failed h
                 (new_Error h (''Startup blocked: '' @ message (snd (runOptionalAuditCheck h))))
                 (emit (fst (runOptionalAuditCheck h)) init)) \<and>
   (exited st = None \<longrightarrow>
      (pc st = LoadingValidator \<longrightarrow>
         step h (ValidatorImported (Inl e)) st =
           startup_failed h (new_Error h ''Failed to load dependency validator'') st \<and>
         (default_export m = Some NotCallable \<or>
          default_export m = None \<and>
            (validateDependencies_export m = Some NotCallable \<or> validateDependencies_export m = None) \<longrightarrow>
            step h (ValidatorImported (Inr m)) st =
              startup_failed h (mk_error h ''TypeError'' ''validateDependencies is not a function'') st) \<and>
         (default_export m = Some (Throws e) \<or>
          default_export m = None \<and> validateDependencies_export m = Some (Throws e) \<longrightarrow>
            step h (ValidatorImported (Inr m)) st = startup_failed h e (emit [CallValidate] st))) \<and>
      (pc st = Validating \<longrightarrow> step h (ValidatorSettled (Inl e)) st = startup_failed h e st) \<and>
      (pc st = LoadingServer \<longrightarrow>
         step h (ServerImported (Inl e)) st =
           startup_failed h (new_Error h ''Failed to load server module'') st \<and>
         (start server = NotCallable \<longrightarrow>
            step h (ServerImported (Inr server)) st =
              startup_failed h (mk_error h ''TypeError'' ''serverModule.start is not a function'') st) \<and>
         (start server = Throws e \<longrightarrow>
            step h (ServerImported (Inr server)) st = startup_failed h e (emit [CallStart] st))) \<and>
      (pc st = Starting server \<longrightarrow>
         step h (RaceEvent (StartSettled (Inl e))) st = startup_failed h e st \<and>
         step h (RaceEvent TimerFired) st =
           startup_failed h (new_Error h ''Server start timed out'') st))"
proof -
  have ord: "prefix (filter is_bootstrap_step (effects (exec h evs))) (bootstrap_steps h) \<and>
     (pc (exec h evs) = Started \<longrightarrow>
        filter is_bootstrap_step (effects (exec h evs)) = bootstrap_steps h)"
    using order_inv_exec [of h evs]
    by (cases "pc (exec h evs)") (simp_all add: order_inv_def bootstrap_steps_def)
  have codes: "(pc (exec h evs) = Failed \<longrightarrow> exited (exec h evs) = Some 1) \<and>
     (Exit 0 \<in> set (effects (exec h evs)) \<longrightarrow> shuttingDown (exec h evs))"
    using exit_code_inv [of h evs] by blast
  have zero: "exited (exec h evs) = Some 0 \<longrightarrow>
      pc (exec h evs) \<noteq> Failed \<and>
      (shuttingDown (exec h evs) \<or>
       (\<exists>pre post. evs = pre @ Drained # post \<and> exited (exec h pre) = None \<and>
                   \<not> keeps_loop_alive (pc (exec h pre))))"
    using exit_code_inv [of h evs] exit_zero_cause [of h evs] by auto
  have frozen: "exited (exec h evs) \<noteq> None \<longrightarrow> exec h (evs @ later) = exec h evs"
    by (simp add: exec_append_exited)
  have log: "hd (niceErrorLog h err) = ConsoleError [''[STARTUP ERROR]'', err_text err]"
    by (simp add: niceErrorLog_def)
  have blocked: "\<not> ok (snd (runOptionalAuditCheck h)) \<longrightarrow>
      main h = startup_failed h
                 (new_Error h (''Startup blocked: '' @ message (snd (runOptionalAuditCheck h))))
                 (emit (fst (runOptionalAuditCheck h)) init)"
    by (simp add: main_blocked)
  have fails: "exited st = None \<longrightarrow>
      (pc st = LoadingValidator \<longrightarrow>
         step h (ValidatorImported (Inl e)) st =
           startup_failed h (new_Error h ''Failed to load dependency validator'') st \<and>
         (default_export m = Some NotCallable \<or>
          default_export m = None \<and>
            (validateDependencies_export m = Some NotCallable \<or> validateDependencies_export m = None) \<longrightarrow>
            step h (ValidatorImported (Inr m)) st =
              startup_failed h (mk_error h ''TypeError'' ''validateDependencies is not a function'') st) \<and>
         (default_export m = Some (Throws e) \<or>
          default_export m = None \<and> validateDependencies_export m = Some (Throws e) \<longrightarrow>
            step h (ValidatorImported (Inr m)) st = startup_failed h e (emit [CallValidate] st))) \<and>
      (pc st = Validating \<longrightarrow> step h (ValidatorSettled (Inl e)) st = startup_failed h e st) \<and>
      (pc st = LoadingServer \<longrightarrow>
         step h (ServerImported (Inl e)) st =
           startup_failed h (new_Error h ''Failed to load server module'') st \<and>
         (start server = NotCallable \<longrightarrow>
            step h (ServerImported (Inr server)) st =
              startup_failed h (mk_error h ''TypeError'' ''serverModule.start is not a function'') st) \<and>
         (start server = Throws e \<longrightarrow>
            step h (ServerImported (Inr server)) st = startup_failed h e (emit [CallStart] st))) \<and>
      (pc st = Starting server \<longrightarrow>
         step h (RaceEvent (StartSettled (Inl e))) st = startup_failed h e st \<and>
         step h (RaceEvent TimerFired) st =
           startup_failed h (new_Error h ''Server start timed out'') st)"
    by (auto simp: step_def app_defs app_catch_def validateDependencies_def)
  show ?thesis
    using ord codes zero frozen log blocked startup_failed_fields(1,3) [of h err s] fails
    by blast
qed

lemma high2_audit:
  "runOptionalAuditCheck (example_host [(''ENFORCE_AUDIT'', ''true'')] high2_output) =
     ([Spawn ''npm'' [''audit'', ''--json'', ''--production'']],
      \<lparr>ok = False, message = ''npm audit found 2 vulnerabilities'', details = None\<rparr>)"
  by (simp add: audit_eval high2_output_def)

text \<open>
  The scenario of the specification (the audit finds two vulnerabilities: exit status 1
  and a message that names them), a start that times out, a validator module whose
  only export throws, and a bootstrap that succeeds.
\<close>

theorem bootstrap_fail_fast_witness:
  "\<not> ok (snd (runOptionalAuditCheck (example_host [(''ENFORCE_AUDIT'', ''true'')] high2_output))) \<and>
   exited (main (example_host [(''ENFORCE_AUDIT'', ''true'')] high2_output)) = Some 1 \<and>
   effects (main (example_host [(''ENFORCE_AUDIT'', ''true'')] high2_output)) =
     [Spawn ''npm'' [''audit'', ''--json'', ''--production''],
      ConsoleError [''[STARTUP ERROR]'', ''Startup blocked: npm audit found 2 vulnerabilities''],
      ConsoleError [''Set DEBUG=true to see stack trace.''],
      Exit 1] \<and>
   exited (exec (example_host [] no_output) (butlast startup_events)) = None \<and>
   pc (exec (example_host [] no_output) (butlast startup_events)) = Starting good_server \<and>
   exited (step (example_host [] no_output) (RaceEvent TimerFired)
             (exec (example_host [] no_output) (butlast startup_events))) = Some 1 \<and>
   default_export throwing_validator = None \<and>
   validateDependencies_export throwing_validator = Some (Throws some_error) \<and>
   exited (step (example_host [] no_output) (ValidatorImported (Inr throwing_validator))
             (main (example_host [] no_output))) = Some 1 \<and>
   pc (exec (example_host [] no_output) startup_events) = Started \<and>
   filter is_bootstrap_step (effects (exec (example_host [] no_output) startup_events)) =
     bootstrap_steps (example_host [] no_output)"
proof -
  let ?h2 = "example_host [(''ENFORCE_AUDIT'', ''true'')] high2_output"
  let ?h = "example_host [] no_output"
  let ?st = "exec ?h (butlast startup_events)"
  let ?blocked = "new_Error ?h2 (''Startup blocked: '' @ message (snd (runOptionalAuditCheck ?h2)))"
  let ?timeout = "new_Error ?h ''Server start timed out''"
  have nok: "\<not> ok (snd (runOptionalAuditCheck ?h2))"
    by (simp add: high2_audit)
  have live: "exited ?st = None" and at_race: "pc ?st = Starting good_server"
    by (simp_all add: pending_start_state)
  have started: "pc (exec ?h startup_events) = Started"
    by (simp add: running_state)
  note audit_case = bootstrap_fail_fast [of ?h2 "[]" _ ?blocked "emit (fst (runOptionalAuditCheck ?h2)) init"]
  note race_case = bootstrap_fail_fast [of ?h "[]" _ ?timeout ?st ?st _ _ good_server]
  note success_case = bootstrap_fail_fast [of ?h startup_events]
  note export_case = bootstrap_fail_fast [of ?h "[]" _ some_error "emit [CallValidate] (main ?h)"
                       "main ?h" some_error throwing_validator]
  have tv: "default_export throwing_validator = None"
    "validateDependencies_export throwing_validator = Some (Throws some_error)"
    by (simp_all add: throwing_validator_def)
  have m0: "exited (main ?h) = None" "pc (main ?h) = LoadingValidator"
    by (simp_all add: main_fields runOptionalAuditCheck_def)
  from export_case tv m0
  have "step ?h (ValidatorImported (Inr throwing_validator)) (main ?h) =
          startup_failed ?h some_error (emit [CallValidate] (main ?h))"
    and "exited (startup_failed ?h some_error (emit [CallValidate] (main ?h))) = Some 1"
    by blast+
  then have e: "exited (step ?h (ValidatorImported (Inr throwing_validator)) (main ?h)) = Some 1"
    by simp
  from audit_case nok
  have m: "main ?h2 = startup_failed ?h2 ?blocked (emit (fst (runOptionalAuditCheck ?h2)) init)"
    by blast
  from audit_case
  have "exited (startup_failed ?h2 ?blocked (emit (fst (runOptionalAuditCheck ?h2)) init)) = Some 1"
    and "effects (startup_failed ?h2 ?blocked (emit (fst (runOptionalAuditCheck ?h2)) init)) =
         effects (emit (fst (runOptionalAuditCheck ?h2)) init) @ niceErrorLog ?h2 ?blocked @ [Exit 1]"
    by blast+
  with m have a: "exited (main ?h2) = Some 1"
    and b: "effects (main ?h2) =
      [Spawn ''npm'' [''audit'', ''--json'', ''--production''],
       ConsoleError [''[STARTUP ERROR]'', ''Startup blocked: npm audit found 2 vulnerabilities''],
       ConsoleError [''Set DEBUG=true to see stack trace.''],
       Exit 1]"
    by (simp_all add: high2_audit init_def niceErrorLog_def new_Error_def mk_error_def err_text_def)
  from race_case live at_race
  have "step ?h (RaceEvent TimerFired) ?st = startup_failed ?h ?timeout ?st"
    and "exited (startup_failed ?h ?timeout ?st) = Some 1"
    by blast+
  then have c: "exited (step ?h (RaceEvent TimerFired) ?st) = Some 1"
    by simp
  from success_case started
  have d: "filter is_bootstrap_step (effects (exec ?h startup_events)) = bootstrap_steps ?h"
    by blast
  from nok a b live at_race c tv e started d show ?thesis by blast
qed

text \<open>
  The validator returns a promise that never settles and leaves nothing that keeps the
  event loop alive: the process ends with status 0 at line 88, with no signal, no
  shutdown and no call of \<open>process.exit\<close>.
\<close>

theorem exit_zero_without_shutdown:
  "exited (exec (example_host [] no_output) [ValidatorImported (Inr good_validator), Drained]) = Some 0 \<and>
   shuttingDown (exec (example_host [] no_output) [ValidatorImported (Inr good_validator), Drained]) = False \<and>
   pc (exec (example_host [] no_output) [ValidatorImported (Inr good_validator), Drained]) = Validating \<and>
   effects (exec (example_host [] no_output) [ValidatorImported (Inr good_validator), Drained]) =
     [Import ''lib/startup/validateDependenciesBasic.js'', CallValidate]"
  by (simp add: exec_def main_def app_begin_def runOptionalAuditCheck_def app_catch_def init_def
        emit_def step_def after_validator_import_def validateDependencies_def good_validator_def)

end
